theory Spec2Isabelle
  imports Complex_Main
begin

section \<open>Python values used by the core modules\<close>

text \<open>
  Scores are Python floats; they are modelled as real numbers, a decimal literal standing
  for the decimal fraction it writes. Counts are natural numbers. A \<open>dict\<close> whose keys
  are fixed by the producer contract is a record of optional fields (a missing key is
  \<open>None\<close>); a \<open>dict\<close> that is iterated or tested for emptiness is an association list
  in insertion order.
\<close>

text \<open>\<open>d.get(key, default)\<close> on an optional field.\<close>

definition get_or :: "'a \<Rightarrow> 'a option \<Rightarrow> 'a" where
  "get_or dflt v = (case v of None \<Rightarrow> dflt | Some x \<Rightarrow> x)"

text \<open>\<open>d.get(key, default)\<close> and \<open>key in d\<close> on an insertion-ordered dict.\<close>

definition dict_get :: "('k \<times> 'v) list \<Rightarrow> 'k \<Rightarrow> 'v \<Rightarrow> 'v" where
  "dict_get d k dflt = (case map_of d k of None \<Rightarrow> dflt | Some v \<Rightarrow> v)"

definition dict_has :: "('k \<times> 'v) list \<Rightarrow> 'k \<Rightarrow> bool" where
  "dict_has d k = (map_of d k \<noteq> None)"

text \<open>\<open>d[key] = v\<close>: an existing key keeps its position, a new key goes last.\<close>

fun dict_set :: "('k \<times> 'v) list \<Rightarrow> 'k \<Rightarrow> 'v \<Rightarrow> ('k \<times> 'v) list" where
  "dict_set [] k v = [(k, v)]"
| "dict_set ((k', v') # d) k v = (if k' = k then (k, v) # d else (k', v') # dict_set d k v)"

text \<open>\<open>sep.join(parts)\<close>.\<close>

fun join :: "string \<Rightarrow> string list \<Rightarrow> string" where
  "join sep [] = []"
| "join sep [p] = p"
| "join sep (p # q # ps) = p @ sep @ join sep (q # ps)"


subsection \<open>Text\<close>

text \<open>
  A text is a list of characters, each read as the code point of its byte (so the model
  covers the texts whose code points are below 256). \<open>lower\<close>, \<open>isupper\<close> and the
  whitespace of \<open>split()\<close> follow Python's tables on that range.
\<close>

definition is_upper_char :: "char \<Rightarrow> bool" where
  "is_upper_char c =
     (let n = (of_char c :: nat)
      in (65 \<le> n \<and> n \<le> 90) \<or> (192 \<le> n \<and> n \<le> 214) \<or> (216 \<le> n \<and> n \<le> 222))"

definition is_lower_char :: "char \<Rightarrow> bool" where
  "is_lower_char c =
     (let n = (of_char c :: nat)
      in (97 \<le> n \<and> n \<le> 122) \<or> n = 170 \<or> n = 181 \<or> n = 186 \<or>
         (223 \<le> n \<and> n \<le> 246) \<or> (248 \<le> n \<and> n \<le> 255))"

definition is_space_char :: "char \<Rightarrow> bool" where
  "is_space_char c =
     (let n = (of_char c :: nat)
      in (9 \<le> n \<and> n \<le> 13) \<or> (28 \<le> n \<and> n \<le> 32) \<or> n = 133 \<or> n = 160)"

definition lower_char :: "char \<Rightarrow> char" where
  "lower_char c = (if is_upper_char c then char_of ((of_char c :: nat) + 32) else c)"

text \<open>\<open>s.lower()\<close>.\<close>

definition lower :: "string \<Rightarrow> string" where
  "lower s = map lower_char s"

text \<open>\<open>s.isupper()\<close>: no lowercase character and at least one uppercase one.\<close>

definition isupper :: "string \<Rightarrow> bool" where
  "isupper s = (\<not> list_ex is_lower_char s \<and> list_ex is_upper_char s)"

text \<open>\<open>s.startswith(p)\<close>.\<close>

fun startswith :: "string \<Rightarrow> string \<Rightarrow> bool" where
  "startswith s [] = True"
| "startswith [] (p # ps) = False"
| "startswith (c # cs) (p # ps) = (c = p \<and> startswith cs ps)"

text \<open>\<open>sub in s\<close>.\<close>

fun str_in :: "string \<Rightarrow> string \<Rightarrow> bool" where
  "str_in sub [] = (sub = [])"
| "str_in sub (c # cs) = (startswith (c # cs) sub \<or> str_in sub cs)"

text \<open>\<open>s.count(sub)\<close>: the occurrences found from the left, none overlapping another.\<close>

function count_from :: "string \<Rightarrow> string \<Rightarrow> nat" where
  "count_from sub [] = 0"
| "count_from sub (c # cs) =
     (if sub \<noteq> [] \<and> startswith (c # cs) sub
      then 1 + count_from sub (drop (length sub - 1) cs)
      else count_from sub cs)"
  by pat_completeness auto
termination
  by (relation "measure (\<lambda>(sub, s). length s)") auto

definition str_count :: "string \<Rightarrow> string \<Rightarrow> nat" where
  "str_count s sub = (if sub = [] then length s + 1 else count_from sub s)"

text \<open>\<open>s.split()\<close>: the maximal runs of characters that are not whitespace.\<close>

fun split_from :: "string \<Rightarrow> string \<Rightarrow> string list" where
  "split_from cur [] = (if cur = [] then [] else [cur])"
| "split_from cur (c # cs) =
     (if is_space_char c then (if cur = [] then [] else [cur]) @ split_from [] cs
      else split_from (cur @ [c]) cs)"

definition split :: "string \<Rightarrow> string list" where
  "split s = split_from [] s"

text \<open>\<open>str(n)\<close> for a count.\<close>

function str_of_nat :: "nat \<Rightarrow> string" where
  "str_of_nat n =
     (if n < 10 then [char_of (48 + n)] else str_of_nat (n div 10) @ [char_of (48 + n mod 10)])"
  by pat_completeness auto
termination
  by (relation "measure id") auto

text \<open>\<open>str(v)\<close> inside an f-string, for a value that is a string or \<open>None\<close>.\<close>

definition str_of_opt :: "string option \<Rightarrow> string" where
  "str_of_opt v = (case v of None \<Rightarrow> ''None'' | Some x \<Rightarrow> x)"

subsection \<open>Producer records\<close>

text \<open>
  The analysis producer's output as the modules read it. Every key is optional; for a key
  that holds a dict, \<open>None\<close> stands for a missing key and for an empty dict alike (both
  are falsy, and both make every \<open>.get\<close> below answer with its default).
\<close>

record arg_structure =
  validity :: "string option"
  soundness :: "string option"

record arg_strength =
  st_score :: "real option"
  st_rating :: "string option"

record fallacy =
  fallacy_type :: "string option"

record analyst_result =
  a_structure :: "arg_structure option"
  a_fallacies :: "fallacy list option"
  a_strength :: "arg_strength option"

record analyst_output =
  a_result :: "analyst_result option"
  a_confidence :: "real option"

text \<open>The relationship producer's output.\<close>

record concept =
  c_id :: "string option"
  c_name :: "string option"

record relationship =
  rel_source :: "string option"
  rel_target :: "string option"
  rel_type :: "string option"

record graph_metrics =
  gm_node_count :: "int option"
  gm_edge_count :: "int option"
  gm_density :: "real option"

record relational_result =
  r_concepts :: "concept list option"
  r_relationships :: "relationship list option"
  r_graph_metrics :: "graph_metrics option"

record relational_output =
  r_result :: "relational_result option"
  r_confidence :: "real option"

text \<open>An optional dict argument (\<open>None\<close> by default) is truthy when it is given and
  not empty; \<open>None\<close> stands for both falsy cases.\<close>

type_synonym sim_metrics = "(string \<times> real) list"

section \<open>Situational Interpretation Module (sim.py)\<close>

definition conflict_words :: "string list" where
  "conflict_words =
     [''but'', ''however'', ''conflict'', ''disagree'', ''oppose'', ''against'', ''dispute'']"

definition uncertainty_words :: "string list" where
  "uncertainty_words =
     [''maybe'', ''perhaps'', ''possibly'', ''might'', ''could'', ''uncertain'',
      ''unclear'', ''ambiguous'', ''questionable'', ''doubt'']"

definition emotional_words :: "string list" where
  "emotional_words =
     [''love'', ''hate'', ''fear'', ''anger'', ''joy'', ''sad'', ''happy'',
      ''terrible'', ''wonderful'', ''awful'', ''amazing'', ''horrific'', ''fantastic'']"

text \<open>\<open>analyst_output and analyst_output.get("result")\<close>: the result dict when both
  are truthy.\<close>

definition truthy_result :: "analyst_output option \<Rightarrow> analyst_result option" where
  "truthy_result analyst_output =
     (case analyst_output of None \<Rightarrow> None | Some ao \<Rightarrow> a_result ao)"

definition calculate_tension :: "string \<Rightarrow> analyst_output option \<Rightarrow> real" where
  "calculate_tension text analyst_output =
     (let tension = 0.0;
          conflict_count = length (filter (\<lambda>word. str_in word (lower text)) conflict_words);
          tension = tension + min (real conflict_count * 0.1) 0.5;
          tension =
            (case truthy_result analyst_output of
               Some res \<Rightarrow>
                 (let fallacy_count = length (get_or [] (a_fallacies res))
                  in tension + min (real fallacy_count * 0.15) 0.4)
             | None \<Rightarrow> tension);
          exclamation_count = str_count text ''!'';
          tension = tension + min (real exclamation_count * 0.05) 0.1
      in min tension 1.0)"

definition calculate_uncertainty :: "string \<Rightarrow> analyst_output option \<Rightarrow> real" where
  "calculate_uncertainty text analyst_output =
     (let uncertainty = 0.0;
          uncertainty_count =
            length (filter (\<lambda>word. str_in word (lower text)) uncertainty_words);
          uncertainty = uncertainty + min (real uncertainty_count * 0.1) 0.5;
          uncertainty =
            (case truthy_result analyst_output of
               Some res \<Rightarrow>
                 (let strength_rating =
                        (case a_strength res of None \<Rightarrow> None | Some st \<Rightarrow> st_rating st)
                  in if strength_rating = Some ''weak'' then uncertainty + 0.3
                     else if strength_rating = Some ''moderate'' then uncertainty + 0.15
                     else uncertainty)
             | None \<Rightarrow> uncertainty);
          question_count = str_count text ''?'';
          uncertainty = uncertainty + min (real question_count * 0.08) 0.2
      in min uncertainty 1.0)"

definition calculate_emotional_intensity :: "string \<Rightarrow> real" where
  "calculate_emotional_intensity text =
     (let intensity = 0.0;
          emotional_count =
            length (filter (\<lambda>word. str_in word (lower text)) emotional_words);
          intensity = intensity + min (real emotional_count * 0.15) 0.6;
          upper_words =
            length (filter (\<lambda>word. isupper word \<and> length word > 1) (split text));
          intensity = intensity + min (real upper_words * 0.1) 0.2;
          multiple_punct = str_count text ''!!!'' + str_count text ''???'';
          intensity = intensity + min (real multiple_punct * 0.1) 0.2
      in min intensity 1.0)"

text \<open>\<open>analyze\<close> overwrites the three entries of \<open>self.metrics\<close> and returns a copy;
  the model returns the new dict, which is also the module's new state.\<close>

definition sim_init :: sim_metrics where
  "sim_init = [(''tension'', 0.0), (''uncertainty'', 0.0), (''emotional_intensity'', 0.0)]"

definition sim_analyze :: "sim_metrics \<Rightarrow> string \<Rightarrow> analyst_output option \<Rightarrow> sim_metrics" where
  "sim_analyze metrics text analyst_output =
     (let metrics = dict_set metrics ''tension'' (calculate_tension text analyst_output);
          metrics = dict_set metrics ''uncertainty'' (calculate_uncertainty text analyst_output);
          metrics = dict_set metrics ''emotional_intensity'' (calculate_emotional_intensity text)
      in metrics)"

section \<open>Contradiction Analysis Module (cam.py)\<close>

record contradiction_record =
  con_type :: string
  description :: string
  severity :: real

record cam_state =
  st_contradiction_score :: real
  st_detected_contradictions :: "contradiction_record list"

record cam_result =
  cam_contradiction_score :: real
  cam_contradictions :: "contradiction_record list"

definition cam_init :: cam_state where
  "cam_init = \<lparr>st_contradiction_score = 0.0, st_detected_contradictions = []\<rparr>"

definition patterns :: "(string \<times> string) list" where
  "patterns = [(''not'', ''but''), (''never'', ''always''), (''none'', ''all''),
               (''impossible'', ''possible'')]"

text \<open>The loop over \<open>patterns\<close>, appending to \<open>contradictions\<close>.\<close>

fun pattern_loop ::
  "string \<Rightarrow> (string \<times> string) list \<Rightarrow> contradiction_record list \<Rightarrow> contradiction_record list"
where
  "pattern_loop text_lower [] contradictions = contradictions"
| "pattern_loop text_lower ((neg, pos) # rest) contradictions =
     pattern_loop text_lower rest
       (if str_in neg text_lower \<and> str_in pos text_lower
        then contradictions @
               [\<lparr>con_type = ''textual'',
                 description = ''Potential contradiction: text contains both '' @ [CHR 0x27] @
                                neg @ [CHR 0x27] @ '' and '' @ [CHR 0x27] @ pos @ [CHR 0x27],
                 severity = 0.5\<rparr>]
        else contradictions)"

definition detect_text_contradictions :: "string \<Rightarrow> contradiction_record list" where
  "detect_text_contradictions text =
     (let text_lower = lower text;
          contradictions = pattern_loop text_lower patterns [];
          but_count = str_count text_lower '' but ''
      in if but_count > 2
         then contradictions @
                [\<lparr>con_type = ''textual'',
                  description = ''Multiple contrasting statements detected ('' @
                                 str_of_nat but_count @ '' instances)'',
                  severity = min (real but_count * 0.15) 0.8\<rparr>]
         else contradictions)"

definition contradiction_fallacies :: "string list" where
  "contradiction_fallacies = [''circular reasoning'', ''contradiction'', ''inconsistent'']"

text \<open>The loop over the fallacies.\<close>

fun fallacy_loop :: "fallacy list \<Rightarrow> contradiction_record list \<Rightarrow> contradiction_record list" where
  "fallacy_loop [] contradictions = contradictions"
| "fallacy_loop (f # rest) contradictions =
     fallacy_loop rest
       (if list_ex (\<lambda>cf. str_in cf (lower (get_or [] (fallacy_type f)))) contradiction_fallacies
        then contradictions @
               [\<lparr>con_type = ''logical_fallacy'',
                 description = ''Contradiction-related fallacy: '' @ str_of_opt (fallacy_type f),
                 severity = 0.65\<rparr>]
        else contradictions)"

definition detect_logical_contradictions :: "analyst_output \<Rightarrow> contradiction_record list" where
  "detect_logical_contradictions analyst_output =
     (let contradictions = [];
          struct = (case a_result analyst_output of None \<Rightarrow> None | Some res \<Rightarrow> a_structure res);
          contradictions =
            (if (case struct of None \<Rightarrow> None | Some st \<Rightarrow> validity st) = Some ''invalid''
             then contradictions @
                    [\<lparr>con_type = ''logical'',
                      description = ''Invalid argument structure detected'',
                      severity = 0.7\<rparr>]
             else contradictions);
          contradictions =
            (if (case struct of None \<Rightarrow> None | Some st \<Rightarrow> soundness st) = Some ''unsound''
             then contradictions @
                    [\<lparr>con_type = ''logical'',
                      description = ''Unsound argument detected'',
                      severity = 0.6\<rparr>]
             else contradictions);
          fallacies =
            (case a_result analyst_output of None \<Rightarrow> [] | Some res \<Rightarrow> get_or [] (a_fallacies res))
      in fallacy_loop fallacies contradictions)"

text \<open>The loop over the relationships: \<open>concept_pairs\<close> maps an ordered pair to the type
  stored for it, and is written on every iteration.\<close>

type_synonym concept_pair = "string option \<times> string option"

fun relationship_loop ::
  "relationship list \<Rightarrow> (concept_pair \<times> string option) list \<Rightarrow> contradiction_record list \<Rightarrow>
   contradiction_record list"
where
  "relationship_loop [] concept_pairs contradictions = contradictions"
| "relationship_loop (rel # rest) concept_pairs contradictions =
     (let pair = (rel_source rel, rel_target rel);
          contradictions =
            (if dict_has concept_pairs pair
             then (if dict_get concept_pairs pair None \<noteq> rel_type rel
                   then contradictions @
                          [\<lparr>con_type = ''relational'',
                            description = ''Conflicting relationship types for concepts '' @
                                           str_of_opt (fst pair) @ '' and '' @ str_of_opt (snd pair),
                            severity = 0.5\<rparr>]
                   else contradictions)
             else contradictions);
          concept_pairs = dict_set concept_pairs pair (rel_type rel)
      in relationship_loop rest concept_pairs contradictions)"

definition detect_relational_contradictions :: "relational_output \<Rightarrow> contradiction_record list" where
  "detect_relational_contradictions relational_output =
     (let relationships =
            (case r_result relational_output of
               None \<Rightarrow> [] | Some res \<Rightarrow> get_or [] (r_relationships res))
      in relationship_loop relationships [] [])"

definition calculate_score :: "contradiction_record list \<Rightarrow> real" where
  "calculate_score contradictions =
     (if contradictions = [] then 0.0
      else
        (let total_severity = sum_list (map severity contradictions);
             count = length contradictions;
             base_score = (if count > 0 then total_severity / real count else 0.0);
             multiplier = min (1.0 + real_of_int (int count - 1) * 0.1) 1.5
         in min (base_score * multiplier) 1.0))"

text \<open>\<open>analyze\<close> replaces the module's list and score; the model returns the result dict
  and the new state.\<close>

definition cam_analyze ::
  "cam_state \<Rightarrow> string \<Rightarrow> analyst_output option \<Rightarrow> relational_output option \<Rightarrow>
   cam_result \<times> cam_state" where
  "cam_analyze s text analyst_output relational_output =
     (let detected = [];
          detected = detected @ detect_text_contradictions text;
          detected =
            (case analyst_output of
               Some ao \<Rightarrow> detected @ detect_logical_contradictions ao
             | None \<Rightarrow> detected);
          detected =
            (case relational_output of
               Some ro \<Rightarrow> detected @ detect_relational_contradictions ro
             | None \<Rightarrow> detected);
          new_score = calculate_score detected
      in (\<lparr>cam_contradiction_score = new_score, cam_contradictions = detected\<rparr>,
          \<lparr>st_contradiction_score = new_score, st_detected_contradictions = detected\<rparr>))"

definition get_score :: "cam_state \<Rightarrow> real" where
  "get_score s = st_contradiction_score s"

definition get_contradictions :: "cam_state \<Rightarrow> contradiction_record list" where
  "get_contradictions s = st_detected_contradictions s"

section \<open>Contextual Trust Module (ctm.py)\<close>

text \<open>A history entry; the timestamp, read from the clock, is left out.\<close>

record trust_history_entry =
  h_score :: real
  h_factors :: "(string \<times> real) list"

record ctm_state =
  st_trust_score :: real
  st_trust_history :: "trust_history_entry list"

record ctm_result =
  ctm_trust_score :: real
  ctm_factors :: "(string \<times> real) list"
  ctm_trend :: string

definition ctm_init :: ctm_state where
  "ctm_init = \<lparr>st_trust_score = 0.5, st_trust_history = []\<rparr>"

definition calculate_analyst_trust :: "analyst_output \<Rightarrow> real" where
  "calculate_analyst_trust analyst_output =
     (let res = a_result analyst_output;
          trust = get_or 0.5 (a_confidence analyst_output);
          strength = (case res of None \<Rightarrow> None | Some r \<Rightarrow> a_strength r);
          strength_score = (case strength of None \<Rightarrow> 0.5 | Some st \<Rightarrow> get_or 0.5 (st_score st));
          trust = (trust + strength_score) / 2;
          fallacy_count =
            length (case res of None \<Rightarrow> [] | Some r \<Rightarrow> get_or [] (a_fallacies r));
          trust = trust - min (real fallacy_count * 0.1) 0.3;
          struct = (case res of None \<Rightarrow> None | Some r \<Rightarrow> a_structure r);
          trust =
            (if (case struct of None \<Rightarrow> None | Some st \<Rightarrow> validity st) = Some ''valid''
             then trust + 0.1 else trust)
      in max 0.0 (min 1.0 trust))"

definition calculate_relational_trust :: "relational_output \<Rightarrow> real" where
  "calculate_relational_trust relational_output =
     (let res = r_result relational_output;
          trust = get_or 0.5 (r_confidence relational_output);
          gm = (case res of None \<Rightarrow> None | Some r \<Rightarrow> r_graph_metrics r);
          node_count = (case gm of None \<Rightarrow> 0 | Some g \<Rightarrow> get_or 0 (gm_node_count g));
          edge_count = (case gm of None \<Rightarrow> 0 | Some g \<Rightarrow> get_or 0 (gm_edge_count g));
          trust = (if node_count \<ge> 3 then trust + 0.1 else trust);
          trust = (if edge_count \<ge> 2 then trust + 0.1 else trust);
          density = (case gm of None \<Rightarrow> 0.0 | Some g \<Rightarrow> get_or 0.0 (gm_density g));
          trust = (if 0.2 \<le> density \<and> density \<le> 0.7 then trust + 0.1 else trust)
      in max 0.0 (min 1.0 trust))"

definition calculate_situational_trust :: "sim_metrics \<Rightarrow> real" where
  "calculate_situational_trust sim_metrics =
     (let tension = dict_get sim_metrics ''tension'' 0.0;
          uncertainty = dict_get sim_metrics ''uncertainty'' 0.0;
          emotional_intensity = dict_get sim_metrics ''emotional_intensity'' 0.0;
          trust = 0.6;
          trust = trust - tension * 0.3;
          trust = trust - uncertainty * 0.4;
          trust = (if emotional_intensity > 0.7 \<or> emotional_intensity < 0.1
                   then trust - 0.15 else trust)
      in max 0.0 (min 1.0 trust))"

definition calculate_trend :: "trust_history_entry list \<Rightarrow> string" where
  "calculate_trend history =
     (if length history < 2 then ''stable''
      else
        (let recent = h_score (history ! (length history - 1));
             previous = h_score (history ! (length history - 2));
             diff = recent - previous
         in if diff > 0.1 then ''increasing''
            else if diff < - 0.1 then ''decreasing''
            else ''stable''))"

definition weights :: "(string \<times> real) list" where
  "weights = [(''analyst'', 0.35), (''relational'', 0.25), (''situational'', 0.25)]"

text \<open>\<open>calculate_trust\<close> sets \<open>self.trust_score\<close> and appends to \<open>self.trust_history\<close>.
  \<open>sim_metrics\<close>, an optional dict, counts as given only when it is not empty.\<close>

definition calculate_trust ::
  "ctm_state \<Rightarrow> analyst_output option \<Rightarrow> relational_output option \<Rightarrow> sim_metrics option \<Rightarrow>
   real \<Rightarrow> ctm_result \<times> ctm_state" where
  "calculate_trust s analyst_output relational_output sim_metrics contradiction_score =
     (let factors = [];
          factors =
            (case analyst_output of
               Some ao \<Rightarrow> dict_set factors ''analyst'' (calculate_analyst_trust ao)
             | None \<Rightarrow> factors);
          factors =
            (case relational_output of
               Some ro \<Rightarrow> dict_set factors ''relational'' (calculate_relational_trust ro)
             | None \<Rightarrow> factors);
          factors =
            (case sim_metrics of
               Some m \<Rightarrow>
                 (if m \<noteq> [] then dict_set factors ''situational'' (calculate_situational_trust m)
                  else factors)
             | None \<Rightarrow> factors);
          contradiction_penalty = contradiction_score * 0.5;
          factors = dict_set factors ''contradiction_penalty'' (- contradiction_penalty);
          weighted_sum = sum_list (map (\<lambda>(k, v). dict_get factors k 0.5 * v) weights);
          new_score = max 0.0 (min 1.0 (weighted_sum - contradiction_penalty));
          history = st_trust_history s @ [\<lparr>h_score = new_score, h_factors = factors\<rparr>]
      in (\<lparr>ctm_trust_score = new_score, ctm_factors = factors,
           ctm_trend = calculate_trend history\<rparr>,
          \<lparr>st_trust_score = new_score, st_trust_history = history\<rparr>))"

definition get_trust_score :: "ctm_state \<Rightarrow> real" where
  "get_trust_score s = st_trust_score s"

definition ctm_get_history :: "ctm_state \<Rightarrow> trust_history_entry list" where
  "ctm_get_history s = st_trust_history s"

section \<open>Self-Regulation Engine (sre.py)\<close>

datatype regulation_mode = Normal | Clarify | Slow_Down

text \<open>The string each mode is in the source.\<close>

fun mode_name :: "regulation_mode \<Rightarrow> string" where
  "mode_name Normal = ''normal''"
| "mode_name Clarify = ''clarify''"
| "mode_name Slow_Down = ''slow_down''"

record regulation_transition =
  tr_from :: regulation_mode
  tr_to :: regulation_mode
  tr_reason :: string

record sre_state =
  sre_mode :: regulation_mode
  mode_history :: "regulation_transition list"

record sre_result =
  res_mode :: regulation_mode
  res_previous_mode :: regulation_mode
  res_mode_changed :: bool
  res_rationale :: string

definition sre_init :: sre_state where
  "sre_init = \<lparr>sre_mode = Normal, mode_history = []\<rparr>"

definition determine_mode :: "sim_metrics \<Rightarrow> real \<Rightarrow> real \<Rightarrow> regulation_mode" where
  "determine_mode sim_metrics contradiction_score trust_score =
     (let uncertainty = dict_get sim_metrics ''uncertainty'' 0.0;
          tension = dict_get sim_metrics ''tension'' 0.0;
          emotional_intensity = dict_get sim_metrics ''emotional_intensity'' 0.0
      in if uncertainty > 0.7 \<or> contradiction_score > 0.6 \<or>
            emotional_intensity > 0.8 \<or> trust_score < 0.3 then Slow_Down
         else if uncertainty > 0.5 \<or> contradiction_score > 0.4 \<or>
            trust_score < 0.5 \<or> tension > 0.6 then Clarify
         else Normal)"

definition get_mode_change_reason :: "sim_metrics \<Rightarrow> real \<Rightarrow> real \<Rightarrow> string" where
  "get_mode_change_reason sim_metrics contradiction_score trust_score =
     (let reasons =
            (if dict_get sim_metrics ''uncertainty'' 0 > 0.6 then [''high uncertainty''] else []) @
            (if contradiction_score > 0.5 then [''contradictions detected''] else []) @
            (if trust_score < 0.4 then [''low trust''] else []) @
            (if dict_get sim_metrics ''tension'' 0 > 0.7 then [''high tension''] else []) @
            (if dict_get sim_metrics ''emotional_intensity'' 0 > 0.7
             then [''high emotional intensity''] else [])
      in if reasons \<noteq> [] then join '', '' reasons else ''metrics stabilized'')"

fun get_mode_rationale :: "regulation_mode \<Rightarrow> string" where
  "get_mode_rationale Slow_Down =
     ''Processing complexity requires careful consideration. Taking additional time to analyze.''"
| "get_mode_rationale Clarify =
     ''Ambiguity or inconsistencies detected. Seeking clarification to improve understanding.''"
| "get_mode_rationale Normal =
     ''Conditions are stable. Proceeding with normal processing.''"

text \<open>\<open>regulate\<close> mutates \<open>self.mode\<close> and \<open>self.mode_history\<close>; the model returns the
  result dict together with the new state.\<close>

definition regulate ::
  "sre_state \<Rightarrow> sim_metrics \<Rightarrow> real \<Rightarrow> real \<Rightarrow> sre_result \<times> sre_state" where
  "regulate s sim_metrics contradiction_score trust_score =
     (let previous_mode = sre_mode s;
          new_mode = determine_mode sim_metrics contradiction_score trust_score;
          history =
            (if new_mode \<noteq> previous_mode
             then mode_history s @
                    [\<lparr>tr_from = previous_mode, tr_to = new_mode,
                      tr_reason = get_mode_change_reason sim_metrics contradiction_score trust_score\<rparr>]
             else mode_history s)
      in (\<lparr>res_mode = new_mode, res_previous_mode = previous_mode,
           res_mode_changed = (new_mode \<noteq> previous_mode),
           res_rationale = get_mode_rationale new_mode\<rparr>,
          \<lparr>sre_mode = new_mode, mode_history = history\<rparr>))"

definition get_mode :: "sre_state \<Rightarrow> regulation_mode" where
  "get_mode s = sre_mode s"

definition sre_get_history :: "sre_state \<Rightarrow> regulation_transition list" where
  "sre_get_history s = mode_history s"

text \<open>A sequence of \<open>regulate\<close> calls on one engine, the results dropped.\<close>

fun regulate_all :: "sre_state \<Rightarrow> (sim_metrics \<times> real \<times> real) list \<Rightarrow> sre_state" where
  "regulate_all s [] = s"
| "regulate_all s ((m, c, t) # calls) = regulate_all (snd (regulate s m c t)) calls"

section \<open>Exceptions\<close>

text \<open>An exception as the orchestrator reports it: the name of its type and its message.\<close>

datatype exn = Exn (exn_type: string) (exn_message: string)

text \<open>\<open>d[key]\<close> on a missing key; the message of a \<open>KeyError\<close> is the key's repr.\<close>

definition KeyError :: "string \<Rightarrow> exn" where
  "KeyError k = Exn ''KeyError'' ([CHR 0x27] @ k @ [CHR 0x27])"

section \<open>Relational Inference Layer (ril.py)\<close>

text \<open>
  An adjacency list holds the relationship records that passed \<open>rel["source"]\<close> and
  \<open>rel["target"]\<close> in \<open>_build_graph\<close>; the model keeps the two values read next to the
  record, so that \<open>edge["target"]\<close> is \<open>e_target edge\<close>.
\<close>

record edge =
  e_source :: string
  e_target :: string
  e_rel :: relationship

type_synonym adjacency = "(string \<times> edge list) list"

record graph =
  g_nodes :: "(string \<times> concept) list"
  g_edges :: adjacency
  g_reverse_edges :: adjacency

record inferred_relationship =
  inf_source :: string
  inf_target :: string
  inf_type :: string
  inf_path :: "string list"
  inf_confidence :: real

record reasoning_path =
  p_start :: string
  p_end :: string
  p_path :: "string list"
  p_length :: nat

record key_node =
  k_id :: string
  k_name :: string
  k_degree :: nat
  k_importance :: real

record graph_structure =
  gs_nodes :: nat
  gs_edges :: nat
  gs_inferred_edges :: nat

record ril_result =
  inferred_relationships :: "inferred_relationship list"
  reasoning_paths :: "reasoning_path list"
  key_concepts :: "key_node list"
  ril_graph_structure :: graph_structure

subsection \<open>\<open>_build_graph\<close>\<close>

text \<open>The dict comprehension \<open>{c["id"]: c for c in concepts}\<close>.\<close>

fun nodes_loop :: "concept list \<Rightarrow> (string \<times> concept) list \<Rightarrow> exn + (string \<times> concept) list" where
  "nodes_loop [] nodes = Inr nodes"
| "nodes_loop (c # rest) nodes =
     (case c_id c of
        None \<Rightarrow> Inl (KeyError ''id'')
      | Some i \<Rightarrow> nodes_loop rest (dict_set nodes i c))"

text \<open>The loop over the relationships, building both adjacency dicts.\<close>

fun adjacency_loop ::
  "relationship list \<Rightarrow> adjacency \<Rightarrow> adjacency \<Rightarrow> exn + (adjacency \<times> adjacency)" where
  "adjacency_loop [] edges reverse_edges = Inr (edges, reverse_edges)"
| "adjacency_loop (rel # rest) edges reverse_edges =
     (case rel_source rel of
        None \<Rightarrow> Inl (KeyError ''source'')
      | Some source \<Rightarrow>
          (case rel_target rel of
             None \<Rightarrow> Inl (KeyError ''target'')
           | Some target \<Rightarrow>
               (let e = \<lparr>e_source = source, e_target = target, e_rel = rel\<rparr>;
                    edges = dict_set edges source (dict_get edges source [] @ [e]);
                    reverse_edges =
                      dict_set reverse_edges target (dict_get reverse_edges target [] @ [e])
                in adjacency_loop rest edges reverse_edges)))"

definition build_graph :: "concept list \<Rightarrow> relationship list \<Rightarrow> exn + graph" where
  "build_graph concepts relationships =
     (case nodes_loop concepts [] of
        Inl e \<Rightarrow> Inl e
      | Inr nodes \<Rightarrow>
          (case adjacency_loop relationships [] [] of
             Inl e \<Rightarrow> Inl e
           | Inr (edges, reverse_edges) \<Rightarrow>
               Inr \<lparr>g_nodes = nodes, g_edges = edges, g_reverse_edges = reverse_edges\<rparr>))"

subsection \<open>\<open>_infer_transitive\<close>\<close>

text \<open>The innermost loop, over the edges leaving \<open>intermediate\<close>.\<close>

fun next_edge_loop ::
  "string \<Rightarrow> edge list \<Rightarrow> string \<Rightarrow> edge list \<Rightarrow> inferred_relationship list \<Rightarrow>
   inferred_relationship list" where
  "next_edge_loop source source_edges intermediate [] inferred = inferred"
| "next_edge_loop source source_edges intermediate (next_edge # rest) inferred =
     (let target = e_target next_edge;
          inferred =
            (if target \<noteq> source
             then (let direct_exists = list_ex (\<lambda>e. e_target e = target) source_edges
                   in if \<not> direct_exists
                      then inferred @
                             [\<lparr>inf_source = source, inf_target = target,
                               inf_type = ''transitive'',
                               inf_path = [source, intermediate, target],
                               inf_confidence = 0.6\<rparr>]
                      else inferred)
             else inferred)
      in next_edge_loop source source_edges intermediate rest inferred)"

text \<open>The loop over the edges leaving \<open>source\<close>.\<close>

fun edge_loop ::
  "adjacency \<Rightarrow> string \<Rightarrow> edge list \<Rightarrow> edge list \<Rightarrow> inferred_relationship list \<Rightarrow>
   inferred_relationship list" where
  "edge_loop edges source source_edges [] inferred = inferred"
| "edge_loop edges source source_edges (e # rest) inferred =
     (let intermediate = e_target e;
          inferred =
            (if dict_has edges intermediate
             then next_edge_loop source source_edges intermediate
                    (dict_get edges intermediate []) inferred
             else inferred)
      in edge_loop edges source source_edges rest inferred)"

text \<open>The loop over \<open>edges.items()\<close>, in insertion order.\<close>

fun source_loop ::
  "adjacency \<Rightarrow> (string \<times> edge list) list \<Rightarrow> inferred_relationship list \<Rightarrow>
   inferred_relationship list" where
  "source_loop edges [] inferred = inferred"
| "source_loop edges ((source, source_edges) # rest) inferred =
     source_loop edges rest (edge_loop edges source source_edges source_edges inferred)"

definition infer_transitive :: "graph \<Rightarrow> inferred_relationship list" where
  "infer_transitive g = take 10 (source_loop (g_edges g) (g_edges g) [])"

subsection \<open>\<open>_find_path\<close>\<close>

text \<open>The \<open>for\<close> loop over the edges of the node taken from the queue: it returns the
  path found (\<open>Inl\<close>) or the queue after its appends (\<open>Inr\<close>).\<close>

fun expand ::
  "string \<Rightarrow> string set \<Rightarrow> string list \<Rightarrow> edge list \<Rightarrow> (string \<times> string list) list \<Rightarrow>
   string list + (string \<times> string list) list" where
  "expand end_node visited path [] queue = Inr queue"
| "expand end_node visited path (e # rest) queue =
     (let target = e_target e
      in if target = end_node then Inl (path @ [target])
         else if target \<notin> visited
         then expand end_node visited path rest (queue @ [(target, path @ [target])])
         else expand end_node visited path rest queue)"

text \<open>Every node the search can still visit: a target of the graph or a node waiting in
  the queue.\<close>

definition reachable_nodes :: "adjacency \<Rightarrow> (string \<times> string list) list \<Rightarrow> string set" where
  "reachable_nodes edges queue =
     e_target ` (\<Union>(k, es) \<in> set edges. set es) \<union> fst ` set queue"

text \<open>The \<open>while queue\<close> loop.\<close>

function (sequential) bfs ::
  "adjacency \<Rightarrow> string \<Rightarrow> nat \<Rightarrow> string set \<Rightarrow> (string \<times> string list) list \<Rightarrow>
   string list option" where
  "bfs edges end_node max_depth visited [] = None"
| "bfs edges end_node max_depth visited ((node, path) # queue) =
     (if length path > max_depth then bfs edges end_node max_depth visited queue
      else if node \<in> visited then bfs edges end_node max_depth visited queue
      else
        (case (if dict_has edges node
               then expand end_node (insert node visited) path (dict_get edges node []) queue
               else Inr queue) of
           Inl found \<Rightarrow> Some found
         | Inr queue' \<Rightarrow> bfs edges end_node max_depth (insert node visited) queue'))"
  by pat_completeness auto

text \<open>The search ends: a node enters \<open>visited\<close> at most once, and every other
  iteration shortens the queue.\<close>

lemma expand_queue_nodes:
  "expand end_node visited path es queue = Inr queue' \<Longrightarrow>
   fst ` set queue' \<subseteq> fst ` set queue \<union> e_target ` set es"
proof (induction es arbitrary: queue)
  case Nil
  then show ?case by auto
next
  case (Cons e es)
  show ?case
  proof (cases "e_target e = end_node")
    case True
    with Cons.prems show ?thesis by (simp add: Let_def)
  next
    case False
    show ?thesis
    proof (cases "e_target e \<in> visited")
      case True
      with False Cons.prems have "expand end_node visited path es queue = Inr queue'"
        by (simp add: Let_def)
      from Cons.IH[OF this] show ?thesis by auto
    next
      case notin: False
      with False Cons.prems
      have "expand end_node visited path es (queue @ [(e_target e, path @ [e_target e])]) = Inr queue'"
        by (simp add: Let_def)
      from Cons.IH[OF this] show ?thesis by auto
    qed
  qed
qed

lemma dict_get_edges_subset:
  "set (dict_get edges node []) \<subseteq> (\<Union>(k, es) \<in> set edges. set es)"
proof (cases "map_of edges node")
  case None
  then show ?thesis by (simp add: dict_get_def)
next
  case (Some es)
  then have "(node, es) \<in> set edges" by (rule map_of_SomeD)
  then have "set es \<subseteq> (\<Union>(k, es) \<in> set edges. set es)" by blast
  with Some show ?thesis by (simp add: dict_get_def)
qed

lemma finite_reachable_nodes: "finite (reachable_nodes edges queue)"
  by (auto simp: reachable_nodes_def)

termination bfs
proof (relation "(\<lambda>(edges, end_node, max_depth, visited, queue).
                    card (reachable_nodes edges queue - visited)) <*mlex*>
                 measure (\<lambda>(edges, end_node, max_depth, visited, queue). length queue)",
       goal_cases)
  case 1
  show ?case by (simp add: wf_mlex)
next
  case (2 edges end_node max_depth visited node path queue)
  have "reachable_nodes edges queue - visited \<subseteq> reachable_nodes edges ((node, path) # queue) - visited"
    by (auto simp: reachable_nodes_def)
  then have "card (reachable_nodes edges queue - visited) \<le> card (reachable_nodes edges ((node, path) # queue) - visited)"
    by (intro card_mono) (auto simp: finite_reachable_nodes)
  then show ?case by (auto intro!: mlex_leq)
next
  case (3 edges end_node max_depth visited node path queue)
  have "reachable_nodes edges queue - visited \<subseteq> reachable_nodes edges ((node, path) # queue) - visited"
    by (auto simp: reachable_nodes_def)
  then have "card (reachable_nodes edges queue - visited) \<le> card (reachable_nodes edges ((node, path) # queue) - visited)"
    by (intro card_mono) (auto simp: finite_reachable_nodes)
  then show ?case by (auto intro!: mlex_leq)
next
  case (4 edges end_node max_depth visited node path queue queue')
  then have q: "fst ` set queue' \<subseteq> fst ` set queue \<union> e_target ` (\<Union>(k, es) \<in> set edges. set es)"
  proof (cases "dict_has edges node")
    case True
    with 4 have "expand end_node (insert node visited) path (dict_get edges node []) queue = Inr queue'"
      by simp
    from expand_queue_nodes[OF this] dict_get_edges_subset[of edges node]
    show ?thesis by blast
  next
    case False
    with 4 have "queue' = queue" by simp
    then show ?thesis by blast
  qed
  have "reachable_nodes edges queue' - insert node visited \<subset> reachable_nodes edges ((node, path) # queue) - visited"
  proof
    show "reachable_nodes edges queue' - insert node visited \<subseteq> reachable_nodes edges ((node, path) # queue) - visited"
      using q by (auto simp: reachable_nodes_def)
    have "node \<in> reachable_nodes edges ((node, path) # queue) - visited"
      using 4 by (auto simp: reachable_nodes_def)
    then show "reachable_nodes edges queue' - insert node visited \<noteq> reachable_nodes edges ((node, path) # queue) - visited"
      by auto
  qed
  then have "card (reachable_nodes edges queue' - insert node visited) < card (reachable_nodes edges ((node, path) # queue) - visited)"
    by (intro psubset_card_mono) (auto simp: finite_reachable_nodes)
  then show ?case by (auto intro!: mlex_less)
qed

definition find_path :: "graph \<Rightarrow> string \<Rightarrow> string \<Rightarrow> nat \<Rightarrow> string list option" where
  "find_path g start end_node max_depth =
     (if start = end_node then Some [start]
      else bfs (g_edges g) end_node max_depth {} [(start, [start])])"

subsection \<open>\<open>_find_reasoning_paths\<close>\<close>

text \<open>The inner loop, over \<open>concepts[i+1:i+3]\<close>.\<close>

fun end_concept_loop ::
  "graph \<Rightarrow> concept \<Rightarrow> concept list \<Rightarrow> reasoning_path list \<Rightarrow> exn + reasoning_path list" where
  "end_concept_loop g start_concept [] paths = Inr paths"
| "end_concept_loop g start_concept (end_concept # rest) paths =
     (case c_id start_concept of
        None \<Rightarrow> Inl (KeyError ''id'')
      | Some start \<Rightarrow>
          (case c_id end_concept of
             None \<Rightarrow> Inl (KeyError ''id'')
           | Some end_node \<Rightarrow>
               (case find_path g start end_node 3 of
                  None \<Rightarrow> end_concept_loop g start_concept rest paths
                | Some path \<Rightarrow>
                    if path = [] then end_concept_loop g start_concept rest paths
                    else
                      (case c_name start_concept of
                         None \<Rightarrow> Inl (KeyError ''name'')
                       | Some start_name \<Rightarrow>
                           (case c_name end_concept of
                              None \<Rightarrow> Inl (KeyError ''name'')
                            | Some end_name \<Rightarrow>
                                end_concept_loop g start_concept rest
                                  (paths @
                                     [\<lparr>p_start = start_name, p_end = end_name,
                                       p_path = path, p_length = length path\<rparr>]))))))"

text \<open>The outer loop, over \<open>enumerate(concepts[:3])\<close>.\<close>

fun start_concept_loop ::
  "graph \<Rightarrow> concept list \<Rightarrow> (nat \<times> concept) list \<Rightarrow> reasoning_path list \<Rightarrow>
   exn + reasoning_path list" where
  "start_concept_loop g concepts [] paths = Inr paths"
| "start_concept_loop g concepts ((i, start_concept) # rest) paths =
     (case end_concept_loop g start_concept (take 2 (drop (i + 1) concepts)) paths of
        Inl e \<Rightarrow> Inl e
      | Inr paths \<Rightarrow> start_concept_loop g concepts rest paths)"

definition find_reasoning_paths :: "graph \<Rightarrow> concept list \<Rightarrow> exn + reasoning_path list" where
  "find_reasoning_paths g concepts =
     (if length concepts < 2 then Inr []
      else start_concept_loop g concepts (enumerate 0 (take 3 concepts)) [])"

subsection \<open>\<open>_identify_key_nodes\<close>\<close>

text \<open>The loop over \<open>nodes.items()\<close>.\<close>

fun key_node_loop ::
  "graph \<Rightarrow> (string \<times> concept) list \<Rightarrow> key_node list \<Rightarrow> exn + key_node list" where
  "key_node_loop g [] key_nodes = Inr key_nodes"
| "key_node_loop g ((node_id, node) # rest) key_nodes =
     (let out_degree = length (dict_get (g_edges g) node_id []);
          in_degree = length (dict_get (g_reverse_edges g) node_id []);
          total_degree = out_degree + in_degree
      in if total_degree > 0
         then (case c_name node of
                 None \<Rightarrow> Inl (KeyError ''name'')
               | Some name \<Rightarrow>
                   key_node_loop g rest
                     (key_nodes @
                        [\<lparr>k_id = node_id, k_name = name, k_degree = total_degree,
                          k_importance = min (real total_degree / 5.0) 1.0\<rparr>]))
         else key_node_loop g rest key_nodes)"

text \<open>\<open>sort(key=degree, reverse=True)\<close> is stable: nodes of equal degree keep their
  order, as \<open>sort_key\<close> on the negated degree does.\<close>

definition identify_key_nodes :: "graph \<Rightarrow> exn + key_node list" where
  "identify_key_nodes g =
     (case key_node_loop g (g_nodes g) [] of
        Inl e \<Rightarrow> Inl e
      | Inr key_nodes \<Rightarrow> Inr (take 5 (sort_key (\<lambda>x. - int (k_degree x)) key_nodes)))"

subsection \<open>\<open>infer\<close>\<close>

definition infer :: "concept list \<Rightarrow> relationship list \<Rightarrow> exn + ril_result" where
  "infer concepts relationships =
     (case build_graph concepts relationships of
        Inl e \<Rightarrow> Inl e
      | Inr g \<Rightarrow>
          (let transitive = infer_transitive g
           in case find_reasoning_paths g concepts of
                Inl e \<Rightarrow> Inl e
              | Inr paths \<Rightarrow>
                  (case identify_key_nodes g of
                     Inl e \<Rightarrow> Inl e
                   | Inr key_nodes \<Rightarrow>
                       Inr \<lparr>inferred_relationships = transitive,
                            reasoning_paths = paths,
                            key_concepts = key_nodes,
                            ril_graph_structure =
                              \<lparr>gs_nodes = length concepts,
                               gs_edges = length relationships,
                               gs_inferred_edges = length transitive\<rparr>\<rparr>)))"

section \<open>Orchestrator (pipeline.py)\<close>

text \<open>
  The three producers are external: each is a function of what the orchestrator hands it,
  returning its output dict (\<open>to_dict()\<close>) or the exception it raises. User and session
  identifiers, the processing time and the timestamps are left out.
\<close>

record internal_state =
  is_sim :: sim_metrics
  is_contradiction :: real
  is_regulation_mode :: regulation_mode
  is_trust :: real

record synthesis_output =
  syn_result :: string
  syn_confidence :: real

record producers =
  analyst_process :: "string \<Rightarrow> exn + analyst_output"
  relational_process :: "string \<Rightarrow> analyst_output \<Rightarrow> exn + relational_output"
  synthesiser_process ::
    "string \<Rightarrow> analyst_output \<Rightarrow> relational_output \<Rightarrow> internal_state \<Rightarrow> exn + synthesis_output"

text \<open>The orchestrator's mutable state: its four history-bearing modules and
  \<open>self.internal_state\<close>.\<close>

record orchestrator =
  o_sim :: sim_metrics
  o_cam :: cam_state
  o_sre :: sre_state
  o_ctm :: ctm_state
  o_internal_state :: internal_state

record module_details =
  md_sim :: sim_metrics
  md_cam :: cam_result
  md_sre :: sre_result
  md_ctm :: ctm_result
  md_ril :: ril_result

record success_data =
  d_analyst_output :: analyst_output
  d_relational_output :: relational_output
  d_synthesis :: synthesis_output
  d_internal_state :: internal_state
  d_module_details :: module_details

datatype process_result = Success success_data | Error (err_message: string) (err_type: string)

definition init_internal_state :: internal_state where
  "init_internal_state =
     \<lparr>is_sim = [(''tension'', 0.0), (''uncertainty'', 0.0), (''emotional_intensity'', 0.0)],
      is_contradiction = 0.0, is_regulation_mode = Normal, is_trust = 0.5\<rparr>"

definition orchestrator_init :: orchestrator where
  "orchestrator_init =
     \<lparr>o_sim = sim_init, o_cam = cam_init, o_sre = sre_init, o_ctm = ctm_init,
      o_internal_state = init_internal_state\<rparr>"

text \<open>The \<open>except Exception\<close> branch.\<close>

definition error_result :: "exn \<Rightarrow> process_result" where
  "error_result e = Error (exn_message e) (exn_type e)"

text \<open>Stage 2 of \<open>process\<close>: SIM, CAM, CTM and SRE in turn, each followed by its write
  to \<open>self.internal_state\<close>.\<close>

definition run_modules ::
  "orchestrator \<Rightarrow> string \<Rightarrow> analyst_output \<Rightarrow>
   (sim_metrics \<times> cam_result \<times> ctm_result \<times> sre_result) \<times> orchestrator" where
  "run_modules s text analyst_output =
     (let sim_metrics = sim_analyze (o_sim s) text (Some analyst_output);
          s = s\<lparr>o_sim := sim_metrics\<rparr>;
          s = s\<lparr>o_internal_state := (o_internal_state s)\<lparr>is_sim := sim_metrics\<rparr>\<rparr>;
          (cam_res, cam) = cam_analyze (o_cam s) text (Some analyst_output) None;
          s = s\<lparr>o_cam := cam\<rparr>;
          s = s\<lparr>o_internal_state :=
                 (o_internal_state s)\<lparr>is_contradiction := cam_contradiction_score cam_res\<rparr>\<rparr>;
          (ctm_res, ctm) =
            calculate_trust (o_ctm s) (Some analyst_output) None (Some sim_metrics)
              (cam_contradiction_score cam_res);
          s = s\<lparr>o_ctm := ctm\<rparr>;
          s = s\<lparr>o_internal_state := (o_internal_state s)\<lparr>is_trust := ctm_trust_score ctm_res\<rparr>\<rparr>;
          (sre_res, sre) =
            regulate (o_sre s) sim_metrics (cam_contradiction_score cam_res)
              (ctm_trust_score ctm_res);
          s = s\<lparr>o_sre := sre\<rparr>;
          s = s\<lparr>o_internal_state :=
                 (o_internal_state s)\<lparr>is_regulation_mode := res_mode sre_res\<rparr>\<rparr>
      in ((sim_metrics, cam_res, ctm_res, sre_res), s))"

text \<open>\<open>process\<close>: an exception raised at any stage leaves the function through the
  \<open>except\<close> branch, with the state as the stages before it left it.\<close>

definition process :: "producers \<Rightarrow> orchestrator \<Rightarrow> string \<Rightarrow> process_result \<times> orchestrator" where
  "process ps s text =
     (case analyst_process ps text of
        Inl e \<Rightarrow> (error_result e, s)
      | Inr analyst_output \<Rightarrow>
          (let ((sim_metrics, cam_res, ctm_res, sre_res), s) = run_modules s text analyst_output
           in case relational_process ps text analyst_output of
                Inl e \<Rightarrow> (error_result e, s)
              | Inr relational_output \<Rightarrow>
                  (let relational_result = r_result relational_output;
                       concepts =
                         (case relational_result of
                            None \<Rightarrow> [] | Some res \<Rightarrow> get_or [] (r_concepts res));
                       relationships =
                         (case relational_result of
                            None \<Rightarrow> [] | Some res \<Rightarrow> get_or [] (r_relationships res))
                   in case infer concepts relationships of
                        Inl e \<Rightarrow> (error_result e, s)
                      | Inr ril_res \<Rightarrow>
                          (case synthesiser_process ps text analyst_output relational_output
                                  (o_internal_state s) of
                             Inl e \<Rightarrow> (error_result e, s)
                           | Inr synthesis \<Rightarrow>
                               (Success
                                  \<lparr>d_analyst_output = analyst_output,
                                   d_relational_output = relational_output,
                                   d_synthesis = synthesis,
                                   d_internal_state = o_internal_state s,
                                   d_module_details =
                                     \<lparr>md_sim = sim_metrics, md_cam = cam_res, md_sre = sre_res,
                                      md_ctm = ctm_res, md_ril = ril_res\<rparr>\<rparr>,
                                s)))))"

definition get_internal_state :: "orchestrator \<Rightarrow> internal_state" where
  "get_internal_state s = o_internal_state s"

definition reset_state :: "orchestrator \<Rightarrow> orchestrator" where
  "reset_state s = s\<lparr>o_internal_state := init_internal_state\<rparr>"

section \<open>Auxiliary notions for the properties\<close>

text \<open>The concept and relationship lists \<open>process\<close> hands to \<open>infer\<close>.\<close>

definition concepts_of :: "relational_output \<Rightarrow> concept list" where
  "concepts_of ro = (case r_result ro of None \<Rightarrow> [] | Some res \<Rightarrow> get_or [] (r_concepts res))"

definition relationships_of :: "relational_output \<Rightarrow> relationship list" where
  "relationships_of ro =
     (case r_result ro of None \<Rightarrow> [] | Some res \<Rightarrow> get_or [] (r_relationships res))"

text \<open>The exception of the first stage of a run that raises, if any: the analysis
  producer, the relationship producer, \<open>infer\<close>, the synthesis producer, in this order.\<close>

definition first_failure :: "producers \<Rightarrow> orchestrator \<Rightarrow> string \<Rightarrow> exn option" where
  "first_failure ps s text =
     (case analyst_process ps text of
        Inl e \<Rightarrow> Some e
      | Inr ao \<Rightarrow>
          (case relational_process ps text ao of
             Inl e \<Rightarrow> Some e
           | Inr ro \<Rightarrow>
               (case infer (concepts_of ro) (relationships_of ro) of
                  Inl e \<Rightarrow> Some e
                | Inr ril \<Rightarrow>
                    (case synthesiser_process ps text ao ro
                            (o_internal_state (snd (run_modules s text ao))) of
                       Inl e \<Rightarrow> Some e
                     | Inr syn \<Rightarrow> None))))"

text \<open>A producer stub: an analysis reporting an invalid structure and one fallacy, and a
  relationship producer that raises.\<close>

definition stub_invalid_analysis :: analyst_output where
  "stub_invalid_analysis =
     \<lparr>a_result = Some \<lparr>a_structure = Some \<lparr>validity = Some ''invalid'', soundness = None\<rparr>,
                        a_fallacies = Some [\<lparr>fallacy_type = Some ''strawman''\<rparr>],
                        a_strength = None\<rparr>,
      a_confidence = Some 0.8\<rparr>"

definition failing_relational :: producers where
  "failing_relational =
     \<lparr>analyst_process = (\<lambda>text. Inr stub_invalid_analysis),
      relational_process = (\<lambda>text ao. Inl (Exn ''RuntimeError'' ''relationship producer failed'')),
      synthesiser_process = (\<lambda>text ao ro st. Inr \<lparr>syn_result = [], syn_confidence = 0.5\<rparr>)\<rparr>"

text \<open>The range every severity CAM assigns lies in.\<close>

definition severity_ok :: "contradiction_record \<Rightarrow> bool" where
  "severity_ok c = (0.45 \<le> severity c \<and> severity c \<le> 0.8)"

text \<open>The ordered pair a relationship is keyed by in CAM's relational pass.\<close>

definition pair_of :: "relationship \<Rightarrow> concept_pair" where
  "pair_of rel = (rel_source rel, rel_target rel)"

text \<open>The record the relational pass emits for a pair.\<close>

definition relational_record :: "concept_pair \<Rightarrow> contradiction_record" where
  "relational_record pair =
     \<lparr>con_type = ''relational'',
      description = ''Conflicting relationship types for concepts '' @
                     str_of_opt (fst pair) @ '' and '' @ str_of_opt (snd pair),
      severity = 0.5\<rparr>"

text \<open>The type of the most recent of the \<open>earlier\<close> relationships on a pair, if there is one.\<close>

definition previous_type :: "relationship list \<Rightarrow> concept_pair \<Rightarrow> string option option" where
  "previous_type earlier pair =
     (let same_pair = filter (\<lambda>rel. pair_of rel = pair) earlier
      in if same_pair = [] then None else Some (rel_type (last same_pair)))"

text \<open>The relationship at position \<open>i\<close> follows an earlier one on the same pair, the most
  recent of which has another type.\<close>

definition type_changed :: "relationship list \<Rightarrow> nat \<Rightarrow> bool" where
  "type_changed rels i =
     (case previous_type (take i rels) (pair_of (rels ! i)) of
        None \<Rightarrow> False
      | Some t \<Rightarrow> t \<noteq> rel_type (rels ! i))"

text \<open>Three relationships on one pair, of types X, Y, X.\<close>

definition xyx_relationships :: "relationship list" where
  "xyx_relationships =
     [\<lparr>rel_source = Some ''a'', rel_target = Some ''b'', rel_type = Some ''X''\<rparr>,
      \<lparr>rel_source = Some ''a'', rel_target = Some ''b'', rel_type = Some ''Y''\<rparr>,
      \<lparr>rel_source = Some ''a'', rel_target = Some ''b'', rel_type = Some ''X''\<rparr>]"

text \<open>A relationship producer output holding the given relationships.\<close>

definition relational_output_of :: "relationship list \<Rightarrow> relational_output" where
  "relational_output_of rels =
     \<lparr>r_result = Some \<lparr>r_concepts = None, r_relationships = Some rels, r_graph_metrics = None\<rparr>,
      r_confidence = None\<rparr>"

text \<open>The inferred edges in the order found, before the cut to ten: for every source
  \<open>a\<close> with an edge to \<open>b\<close> and every edge from \<open>b\<close> to \<open>c\<close> with \<open>c \<noteq> a\<close>, unless an
  edge of \<open>a\<close>'s own adjacency list points at \<open>c\<close>.\<close>

definition transitive_candidates :: "adjacency \<Rightarrow> inferred_relationship list" where
  "transitive_candidates edges =
     [\<lparr>inf_source = a, inf_target = e_target bc, inf_type = ''transitive'',
       inf_path = [a, e_target ab, e_target bc], inf_confidence = 0.6\<rparr>.
        (a, a_edges) \<leftarrow> edges,
        ab \<leftarrow> a_edges,
        bc \<leftarrow> dict_get edges (e_target ab) [],
        e_target bc \<noteq> a,
        \<not> list_ex (\<lambda>direct. e_target direct = e_target bc) a_edges]"

text \<open>The concepts A, B, C.\<close>

definition chain_concepts :: "concept list" where
  "chain_concepts =
     [\<lparr>c_id = Some ''A'', c_name = Some ''a''\<rparr>, \<lparr>c_id = Some ''B'', c_name = Some ''b''\<rparr>,
      \<lparr>c_id = Some ''C'', c_name = Some ''c''\<rparr>]"

text \<open>A relationship record from \<open>a\<close> to \<open>b\<close>.\<close>

definition related :: "string \<Rightarrow> string \<Rightarrow> relationship" where
  "related a b = \<lparr>rel_source = Some a, rel_target = Some b, rel_type = Some ''related_to''\<rparr>"




text \<open>The concepts A, B, B2, C.\<close>

definition diamond_concepts :: "concept list" where
  "diamond_concepts =
     [\<lparr>c_id = Some ''A'', c_name = Some ''a''\<rparr>, \<lparr>c_id = Some ''B'', c_name = Some ''b''\<rparr>,
      \<lparr>c_id = Some ''B2'', c_name = Some ''b2''\<rparr>, \<lparr>c_id = Some ''C'', c_name = Some ''c''\<rparr>]"

text \<open>Eleven intermediate concepts.\<close>

definition intermediates :: "string list" where
  "intermediates = [''b1'', ''b2'', ''b3'', ''b4'', ''b5'', ''b6'', ''b7'', ''b8'', ''b9'',
                    ''b10'', ''b11'']"

text \<open>A points at each intermediate, each intermediate points at C, and the last one
  also at D.\<close>

definition fan_relationships :: "relationship list" where
  "fan_relationships =
     map (\<lambda>b. related ''A'' b) intermediates @ map (\<lambda>b. related b ''C'') intermediates @
     [related ''b11'' ''D'']"

text \<open>The inferred edge from \<open>a\<close> to \<open>c\<close> through \<open>b\<close>.\<close>

definition transitive_edge :: "string \<Rightarrow> string \<Rightarrow> string \<Rightarrow> inferred_relationship" where
  "transitive_edge a b c =
     \<lparr>inf_source = a, inf_target = c, inf_type = ''transitive'', inf_path = [a, b, c],
      inf_confidence = 0.6\<rparr>"









section \<open>Properties of the Self-Regulation Engine\<close>

lemma determine_mode_cases:
  "determine_mode m c t =
     (if dict_get m ''uncertainty'' 0 > 0.7 \<or> c > 0.6 \<or>
         dict_get m ''emotional_intensity'' 0 > 0.8 \<or> t < 0.3 then Slow_Down
      else if dict_get m ''uncertainty'' 0 > 0.5 \<or> c > 0.4 \<or> t < 0.5 \<or>
         dict_get m ''tension'' 0 > 0.6 then Clarify
      else Normal)"
  by (simp add: determine_mode_def Let_def)

lemma res_mode_regulate: "res_mode (fst (regulate s m c t)) = determine_mode m c t"
  by (simp add: regulate_def Let_def)

text \<open>
  Claim C6. For every \<open>sim_metrics\<close>, contradiction score and trust score, and whatever
  mode the engine held before, \<open>regulate\<close> returns \<open>slow_down\<close> exactly when
  uncertainty > 0.7 or contradiction_score > 0.6 or emotional_intensity > 0.8 or
  trust_score < 0.3; otherwise \<open>clarify\<close> exactly when uncertainty > 0.5 or
  contradiction_score > 0.4 or trust_score < 0.5 or tension > 0.6; otherwise \<open>normal\<close>.
  The metrics 0.2/0.3/0.4 with contradiction 0.2 and trust 0.7 give \<open>normal\<close>;
  uncertainty 0.75, contradiction 0.65, emotional intensity 0.85 and trust 0.25 give
  \<open>slow_down\<close> for any tension.
\<close>

theorem regulate_mode_priority_rules:
  fixes s :: sre_state and m :: sim_metrics and c t tn :: real
  shows "(res_mode (fst (regulate s m c t)) = Slow_Down \<longleftrightarrow>
            (dict_get m ''uncertainty'' 0 > 0.7 \<or> c > 0.6 \<or>
             dict_get m ''emotional_intensity'' 0 > 0.8 \<or> t < 0.3)) \<and>
         (res_mode (fst (regulate s m c t)) = Clarify \<longleftrightarrow>
            \<not> (dict_get m ''uncertainty'' 0 > 0.7 \<or> c > 0.6 \<or>
               dict_get m ''emotional_intensity'' 0 > 0.8 \<or> t < 0.3) \<and>
            (dict_get m ''uncertainty'' 0 > 0.5 \<or> c > 0.4 \<or> t < 0.5 \<or>
             dict_get m ''tension'' 0 > 0.6)) \<and>
         (res_mode (fst (regulate s m c t)) = Normal \<longleftrightarrow>
            \<not> (dict_get m ''uncertainty'' 0 > 0.7 \<or> c > 0.6 \<or>
               dict_get m ''emotional_intensity'' 0 > 0.8 \<or> t < 0.3) \<and>
            \<not> (dict_get m ''uncertainty'' 0 > 0.5 \<or> c > 0.4 \<or> t < 0.5 \<or>
               dict_get m ''tension'' 0 > 0.6)) \<and>
         res_mode (fst (regulate s
             [(''tension'', 0.2), (''uncertainty'', 0.3), (''emotional_intensity'', 0.4)]
             0.2 0.7)) = Normal \<and>
         res_mode (fst (regulate s
             [(''tension'', tn), (''uncertainty'', 0.75), (''emotional_intensity'', 0.85)]
             0.65 0.25)) = Slow_Down"
proof -
  have general: "res_mode (fst (regulate s m c t)) =
      (if dict_get m ''uncertainty'' 0 > 0.7 \<or> c > 0.6 \<or>
          dict_get m ''emotional_intensity'' 0 > 0.8 \<or> t < 0.3 then Slow_Down
       else if dict_get m ''uncertainty'' 0 > 0.5 \<or> c > 0.4 \<or> t < 0.5 \<or>
          dict_get m ''tension'' 0 > 0.6 then Clarify
       else Normal)"
    unfolding res_mode_regulate determine_mode_cases by (rule refl)
  have ex1: "res_mode (fst (regulate s
             [(''tension'', 0.2), (''uncertainty'', 0.3), (''emotional_intensity'', 0.4)]
             0.2 0.7)) = Normal"
    by (simp add: res_mode_regulate determine_mode_cases dict_get_def)
  have ex2: "res_mode (fst (regulate s
             [(''tension'', tn), (''uncertainty'', 0.75), (''emotional_intensity'', 0.85)]
             0.65 0.25)) = Slow_Down"
    by (simp add: res_mode_regulate determine_mode_cases dict_get_def)
  have g1: "(res_mode (fst (regulate s m c t)) = Slow_Down \<longleftrightarrow>
            (dict_get m ''uncertainty'' 0 > 0.7 \<or> c > 0.6 \<or>
             dict_get m ''emotional_intensity'' 0 > 0.8 \<or> t < 0.3))"
    unfolding general by simp
  have g2: "(res_mode (fst (regulate s m c t)) = Clarify \<longleftrightarrow>
            \<not> (dict_get m ''uncertainty'' 0 > 0.7 \<or> c > 0.6 \<or>
               dict_get m ''emotional_intensity'' 0 > 0.8 \<or> t < 0.3) \<and>
            (dict_get m ''uncertainty'' 0 > 0.5 \<or> c > 0.4 \<or> t < 0.5 \<or>
             dict_get m ''tension'' 0 > 0.6))"
    unfolding general by simp
  have g3: "(res_mode (fst (regulate s m c t)) = Normal \<longleftrightarrow>
            \<not> (dict_get m ''uncertainty'' 0 > 0.7 \<or> c > 0.6 \<or>
               dict_get m ''emotional_intensity'' 0 > 0.8 \<or> t < 0.3) \<and>
            \<not> (dict_get m ''uncertainty'' 0 > 0.5 \<or> c > 0.4 \<or> t < 0.5 \<or>
               dict_get m ''tension'' 0 > 0.6))"
    unfolding general by simp
  from g1 g2 g3 ex1 ex2 show ?thesis by blast
qed

lemma regulate_all_records_changes:
  "list_all (\<lambda>tr. tr_from tr \<noteq> tr_to tr) (mode_history s) \<Longrightarrow>
   list_all (\<lambda>tr. tr_from tr \<noteq> tr_to tr) (mode_history (regulate_all s calls))"
proof (induction calls arbitrary: s)
  case Nil
  then show ?case by simp
next
  case (Cons call calls)
  obtain m c t where call: "call = (m, c, t)" by (cases call)
  from Cons.prems
  have "list_all (\<lambda>tr. tr_from tr \<noteq> tr_to tr) (mode_history (snd (regulate s m c t)))"
    by (simp add: regulate_def Let_def)
  from Cons.IH[OF this] show ?case by (simp add: call)
qed

text \<open>
  Claim C9. The mode history records only actual mode changes. A \<open>regulate\<close> call whose
  computed mode equals the mode held before leaves the history as it was; a call whose
  computed mode differs appends exactly one transition, from the mode held before to
  the newly computed mode. In both cases the engine then holds the computed mode, so the
  statement applies to every call of any sequence of calls; and after any sequence of
  calls on a new engine, every transition of the history goes from a mode to another one.
\<close>

theorem regulate_history_records_changes_only:
  fixes s :: sre_state and m :: sim_metrics and c t :: real
  shows "get_mode (snd (regulate s m c t)) = determine_mode m c t \<and>
         res_mode (fst (regulate s m c t)) = determine_mode m c t \<and>
         (if determine_mode m c t = get_mode s
          then sre_get_history (snd (regulate s m c t)) = sre_get_history s
          else (\<exists>tr. sre_get_history (snd (regulate s m c t)) = sre_get_history s @ [tr] \<and>
                  tr_from tr = get_mode s \<and> tr_to tr = determine_mode m c t)) \<and>
         list_all (\<lambda>tr. tr_from tr \<noteq> tr_to tr) (sre_get_history (regulate_all sre_init calls))"
proof -
  have "list_all (\<lambda>tr. tr_from tr \<noteq> tr_to tr) (mode_history sre_init)"
    by (simp add: sre_init_def)
  from regulate_all_records_changes[OF this, of calls]
  show ?thesis
    by (simp add: regulate_def Let_def sre_get_history_def get_mode_def)
qed

section \<open>Dictionaries and situational metrics\<close>

lemma map_of_dict_set: "map_of (dict_set d k v) k' = (if k' = k then Some v else map_of d k')"
  by (induction d) auto

lemma dict_get_dict_set:
  "dict_get (dict_set d k v) k' dflt = (if k' = k then v else dict_get d k' dflt)"
  by (simp add: dict_get_def map_of_dict_set)

lemma calculate_tension_bounds: "0 \<le> calculate_tension text ao \<and> calculate_tension text ao \<le> 1"
  by (simp add: calculate_tension_def Let_def min_def split: option.splits)

lemma calculate_uncertainty_bounds:
  "0 \<le> calculate_uncertainty text ao \<and> calculate_uncertainty text ao \<le> 1"
  by (simp add: calculate_uncertainty_def Let_def min_def split: option.splits)

lemma calculate_emotional_intensity_bounds:
  "0 \<le> calculate_emotional_intensity text \<and> calculate_emotional_intensity text \<le> 1"
  by (simp add: calculate_emotional_intensity_def Let_def min_def)

lemma sim_analyze_tension:
  "dict_get (sim_analyze m text ao) ''tension'' d = calculate_tension text ao"
  by (simp add: sim_analyze_def Let_def dict_get_dict_set)

lemma sim_analyze_uncertainty:
  "dict_get (sim_analyze m text ao) ''uncertainty'' d = calculate_uncertainty text ao"
  by (simp add: sim_analyze_def Let_def dict_get_dict_set)

lemma sim_analyze_emotional_intensity:
  "dict_get (sim_analyze m text ao) ''emotional_intensity'' d = calculate_emotional_intensity text"
  by (simp add: sim_analyze_def Let_def dict_get_dict_set)

section \<open>Contradiction severities and score\<close>

lemma pattern_loop_severity:
  "list_all severity_ok acc \<Longrightarrow> list_all severity_ok (pattern_loop t ps acc)"
  by (induction t ps acc rule: pattern_loop.induct) (auto simp: severity_ok_def)

lemma detect_text_severity: "list_all severity_ok (detect_text_contradictions text)"
proof -
  have a: "list_all severity_ok (pattern_loop (lower text) patterns [])"
    by (rule pattern_loop_severity) simp
  show ?thesis
    using a by (auto simp: detect_text_contradictions_def Let_def severity_ok_def min_def)
qed

lemma fallacy_loop_severity:
  "list_all severity_ok acc \<Longrightarrow> list_all severity_ok (fallacy_loop fs acc)"
  by (induction fs acc rule: fallacy_loop.induct) (auto simp: severity_ok_def)

lemma fallacy_loop_nonempty: "acc \<noteq> [] \<Longrightarrow> fallacy_loop fs acc \<noteq> []"
  by (induction fs acc rule: fallacy_loop.induct) auto

lemma detect_logical_severity: "list_all severity_ok (detect_logical_contradictions ao)"
  unfolding detect_logical_contradictions_def Let_def
  by (rule fallacy_loop_severity) (simp add: severity_ok_def)

lemma relationship_loop_severity:
  "list_all severity_ok acc \<Longrightarrow> list_all severity_ok (relationship_loop rs cp acc)"
  by (induction rs cp acc rule: relationship_loop.induct) (auto simp: severity_ok_def Let_def)

lemma detect_relational_severity: "list_all severity_ok (detect_relational_contradictions ro)"
  unfolding detect_relational_contradictions_def Let_def
  by (rule relationship_loop_severity) simp

lemma cam_analyze_severity:
  "list_all severity_ok (cam_contradictions (fst (cam_analyze s text ao ro)))"
  by (simp add: cam_analyze_def Let_def detect_text_severity detect_logical_severity
      detect_relational_severity split: option.splits)

lemma cam_analyze_score:
  "cam_contradiction_score (fst (cam_analyze s text ao ro)) =
     calculate_score (cam_contradictions (fst (cam_analyze s text ao ro)))"
  by (simp add: cam_analyze_def Let_def split: option.splits)

lemma sum_list_severity_lower:
  "list_all severity_ok cs \<Longrightarrow> 0.45 * real (length cs) \<le> sum_list (map severity cs)"
  by (induction cs) (auto simp: severity_ok_def algebra_simps)

lemma calculate_score_upper: "calculate_score cs \<le> 1"
  by (simp add: calculate_score_def Let_def)

lemma calculate_score_lower:
  assumes "list_all severity_ok cs" and "cs \<noteq> []"
  shows "0.45 \<le> calculate_score cs"
proof -
  define n where "n = real (length cs)"
  define b where "b = sum_list (map severity cs) / n"
  define m where "m = min (1.0 + real_of_int (int (length cs) - 1) * 0.1) (1.5::real)"
  from assms(2) have npos: "0 < n" by (simp add: n_def)
  have base: "0.45 \<le> b"
    unfolding b_def
    by (rule iffD2[OF pos_le_divide_eq[OF npos]])
       (simp only: n_def sum_list_severity_lower[OF assms(1)])
  have "(0::real) \<le> 0.45" by simp
  from this base have base0: "0 \<le> b" by (rule order_trans)
  from assms(2) have "1 \<le> length cs" by (cases cs) auto
  then have "1 \<le> 1.0 + real_of_int (int (length cs) - 1) * (0.1::real)" by simp
  then have mult: "1 \<le> m" by (simp add: m_def)
  have "b * 1 \<le> b * m" by (rule mult_left_mono[OF mult base0])
  then have "b \<le> b * m" by simp
  from base this have "0.45 \<le> b * m" by (rule order_trans)
  then have "0.45 \<le> min (b * m) 1.0" by simp
  moreover from assms(2) have "calculate_score cs = min (b * m) 1.0"
    by (simp add: calculate_score_def Let_def b_def m_def n_def)
  ultimately show ?thesis by simp
qed

lemma calculate_score_nonneg:
  assumes "list_all severity_ok cs"
  shows "0 \<le> calculate_score cs"
proof (cases "cs = []")
  case True
  then show ?thesis by (simp add: calculate_score_def)
next
  case False
  have "(0::real) \<le> 0.45" by simp
  from this calculate_score_lower[OF assms False] show ?thesis by (rule order_trans)
qed

lemma calculate_trust_bounds:
  "0 \<le> ctm_trust_score (fst (calculate_trust s ao ro sm c)) \<and>
   ctm_trust_score (fst (calculate_trust s ao ro sm c)) \<le> 1"
  by (simp add: calculate_trust_def Let_def)

section \<open>The pipeline\<close>

lemma run_modules_state:
  "snd (run_modules s text ao) =
     (let sim = sim_analyze (o_sim s) text (Some ao);
          cam = cam_analyze (o_cam s) text (Some ao) None;
          c = cam_contradiction_score (fst cam);
          ctm = calculate_trust (o_ctm s) (Some ao) None (Some sim) c;
          t = ctm_trust_score (fst ctm);
          sre = regulate (o_sre s) sim c t
      in \<lparr>o_sim = sim, o_cam = snd cam, o_sre = snd sre, o_ctm = snd ctm,
          o_internal_state =
            \<lparr>is_sim = sim, is_contradiction = c,
             is_regulation_mode = res_mode (fst sre), is_trust = t\<rparr>\<rparr>)"
  by (simp add: run_modules_def Let_def case_prod_beta)

lemma run_modules_results:
  "fst (run_modules s text ao) =
     (let sim = sim_analyze (o_sim s) text (Some ao);
          cam = cam_analyze (o_cam s) text (Some ao) None;
          c = cam_contradiction_score (fst cam);
          ctm = calculate_trust (o_ctm s) (Some ao) None (Some sim) c;
          t = ctm_trust_score (fst ctm);
          sre = regulate (o_sre s) sim c t
      in (sim, fst cam, fst ctm, fst sre))"
  by (simp add: run_modules_def Let_def case_prod_beta)

lemma process_state:
  "snd (process ps s text) =
     (case analyst_process ps text of Inl e \<Rightarrow> s | Inr ao \<Rightarrow> snd (run_modules s text ao))"
  by (simp add: process_def Let_def case_prod_beta split: sum.splits)

lemma process_success_details:
  assumes "fst (process ps s text) = Success d"
  shows "\<exists>ao. analyst_process ps text = Inr ao \<and>
           (md_sim (d_module_details d), md_cam (d_module_details d),
            md_ctm (d_module_details d), md_sre (d_module_details d)) = fst (run_modules s text ao) \<and>
           d_internal_state d = o_internal_state (snd (run_modules s text ao))"
  using assms
  by (auto simp: process_def Let_def case_prod_beta error_result_def split: sum.splits)

lemma detect_logical_invalid:
  assumes "a_result ao = Some res" "a_structure res = Some st" "validity st = Some ''invalid''"
  shows "detect_logical_contradictions ao \<noteq> []"
  using assms unfolding detect_logical_contradictions_def Let_def
  by (intro fallacy_loop_nonempty) simp

lemma cam_analyze_invalid_score:
  assumes "a_result ao = Some res" "a_structure res = Some st" "validity st = Some ''invalid''"
  shows "0.45 \<le> cam_contradiction_score (fst (cam_analyze cs text (Some ao) ro))"
proof -
  have "cam_contradictions (fst (cam_analyze cs text (Some ao) ro)) \<noteq> []"
    using detect_logical_invalid[OF assms]
    by (simp add: cam_analyze_def Let_def split: option.splits)
  from calculate_score_lower[OF cam_analyze_severity this]
  show ?thesis by (simp only: cam_analyze_score)
qed

lemma determine_mode_contradiction:
  assumes "0.45 \<le> c"
  shows "determine_mode m c t = Clarify \<or> determine_mode m c t = Slow_Down"
proof -
  have "(0.4::real) < 0.45" by simp
  from this assms have "0.4 < c" by (rule less_le_trans)
  then show ?thesis by (simp add: determine_mode_cases)
qed

text \<open>
  Claim C5. When the analysis producer reports structure validity \<open>invalid\<close> and one
  fallacy, the run's contradiction score is positive and the mode SRE computes is
  \<open>clarify\<close> or \<open>slow_down\<close>: in the modules' state, in the internal state and, when
  the run succeeds, in the module details of the result.
\<close>

theorem invalid_analysis_forces_regulation:
  assumes "analyst_process ps text = Inr ao"
    and "a_result ao = Some res"
    and "a_structure res = Some st"
    and "validity st = Some ''invalid''"
    and "a_fallacies res = Some [f]"
  shows "0 < get_score (o_cam (snd (process ps s text))) \<and>
         0 < is_contradiction (get_internal_state (snd (process ps s text))) \<and>
         (get_mode (o_sre (snd (process ps s text))) = Clarify \<or>
          get_mode (o_sre (snd (process ps s text))) = Slow_Down) \<and>
         (is_regulation_mode (get_internal_state (snd (process ps s text))) = Clarify \<or>
          is_regulation_mode (get_internal_state (snd (process ps s text))) = Slow_Down) \<and>
         (case fst (process ps s text) of
            Success d \<Rightarrow>
              0 < cam_contradiction_score (md_cam (d_module_details d)) \<and>
              (res_mode (md_sre (d_module_details d)) = Clarify \<or>
               res_mode (md_sre (d_module_details d)) = Slow_Down)
          | Error msg ty \<Rightarrow> True)"
proof -
  define sim where "sim = sim_analyze (o_sim s) text (Some ao)"
  define cam where "cam = cam_analyze (o_cam s) text (Some ao) None"
  define c where "c = cam_contradiction_score (fst cam)"
  define t where "t = ctm_trust_score (fst (calculate_trust (o_ctm s) (Some ao) None (Some sim) c))"
  have c45: "0.45 \<le> c"
    unfolding c_def cam_def by (rule cam_analyze_invalid_score[OF assms(2-4)])
  have "(0::real) < 0.45" by simp
  from this c45 have cpos: "0 < c" by (rule less_le_trans)
  have mode: "determine_mode sim c t = Clarify \<or> determine_mode sim c t = Slow_Down"
    by (rule determine_mode_contradiction[OF c45])
  have st: "snd (process ps s text) = snd (run_modules s text ao)"
    by (simp add: process_state assms(1))
  have cam_state: "get_score (snd cam) = c"
    by (simp add: cam_def c_def get_score_def cam_analyze_def Let_def)
  have 1: "0 < get_score (o_cam (snd (process ps s text)))"
    using cpos cam_state
    by (simp add: st run_modules_state Let_def cam_def[symmetric])
  have 2: "0 < is_contradiction (get_internal_state (snd (process ps s text)))"
    using cpos
    by (simp add: st run_modules_state Let_def get_internal_state_def cam_def[symmetric] c_def[symmetric])
  have 3: "get_mode (o_sre (snd (process ps s text))) = determine_mode sim c t"
    by (simp add: st run_modules_state Let_def get_mode_def regulate_def
        sim_def cam_def c_def t_def)
  have 4: "is_regulation_mode (get_internal_state (snd (process ps s text))) = determine_mode sim c t"
    by (simp add: st run_modules_state Let_def get_internal_state_def res_mode_regulate
        sim_def cam_def c_def t_def)
  have 5: "(case fst (process ps s text) of
            Success d \<Rightarrow>
              0 < cam_contradiction_score (md_cam (d_module_details d)) \<and>
              (res_mode (md_sre (d_module_details d)) = Clarify \<or>
               res_mode (md_sre (d_module_details d)) = Slow_Down)
          | Error msg ty \<Rightarrow> True)"
  proof (cases "fst (process ps s text)")
    case (Success d)
    from process_success_details[OF Success] assms(1)
    have "(md_sim (d_module_details d), md_cam (d_module_details d),
            md_ctm (d_module_details d), md_sre (d_module_details d)) = fst (run_modules s text ao)"
      by auto
    then have "md_cam (d_module_details d) = fst cam"
      and "res_mode (md_sre (d_module_details d)) = determine_mode sim c t"
      by (simp_all add: run_modules_results Let_def res_mode_regulate sim_def cam_def c_def t_def)
    with cpos mode Success show ?thesis by (simp add: c_def)
  next
    case (Error msg ty)
    then show ?thesis by simp
  qed
  from 1 2 3 4 5 mode show ?thesis by simp
qed

lemma process_result_of_failure:
  "first_failure ps s text = Some e \<Longrightarrow> fst (process ps s text) = error_result e"
  by (auto simp: first_failure_def process_def Let_def case_prod_beta concepts_of_def
      relationships_of_def split: sum.splits)

text \<open>
  Claim C2. For every text and every (possibly absent) analyst and relational record,
  the three values \<open>analyze\<close> of SIM returns under the keys tension, uncertainty and
  emotional_intensity, the contradiction score CAM returns and the trust score CTM returns
  (for any inputs of \<open>calculate_trust\<close>) lie in the closed interval from 0 to 1.
\<close>

theorem scores_in_unit_interval:
  "0 \<le> dict_get (sim_analyze m text ao) ''tension'' d \<and>
   dict_get (sim_analyze m text ao) ''tension'' d \<le> 1 \<and>
   0 \<le> dict_get (sim_analyze m text ao) ''uncertainty'' d \<and>
   dict_get (sim_analyze m text ao) ''uncertainty'' d \<le> 1 \<and>
   0 \<le> dict_get (sim_analyze m text ao) ''emotional_intensity'' d \<and>
   dict_get (sim_analyze m text ao) ''emotional_intensity'' d \<le> 1 \<and>
   0 \<le> cam_contradiction_score (fst (cam_analyze cs text ao ro)) \<and>
   cam_contradiction_score (fst (cam_analyze cs text ao ro)) \<le> 1 \<and>
   0 \<le> ctm_trust_score (fst (calculate_trust ts ao' ro' sm c)) \<and>
   ctm_trust_score (fst (calculate_trust ts ao' ro' sm c)) \<le> 1"
proof -
  have cam0: "0 \<le> cam_contradiction_score (fst (cam_analyze cs text ao ro))"
    unfolding cam_analyze_score by (rule calculate_score_nonneg[OF cam_analyze_severity])
  have cam1: "cam_contradiction_score (fst (cam_analyze cs text ao ro)) \<le> 1"
    unfolding cam_analyze_score by (rule calculate_score_upper)
  from cam0 cam1 show ?thesis
    by (simp only: sim_analyze_tension sim_analyze_uncertainty sim_analyze_emotional_intensity
        calculate_tension_bounds calculate_uncertainty_bounds
        calculate_emotional_intensity_bounds calculate_trust_bounds simp_thms)
qed

lemma calculate_trust_factors_penalty:
  "dict_get (ctm_factors (fst (calculate_trust s ao ro sm c))) ''contradiction_penalty'' d =
     - (c * 0.5)"
  by (simp add: calculate_trust_def Let_def dict_get_dict_set)

lemma calculate_trust_score_formula:
  "ctm_trust_score (fst (calculate_trust s ao ro sm c)) =
     max 0 (min 1
       (dict_get (ctm_factors (fst (calculate_trust s ao ro sm c))) ''analyst'' 0.5 * 0.35 +
        dict_get (ctm_factors (fst (calculate_trust s ao ro sm c))) ''relational'' 0.5 * 0.25 +
        dict_get (ctm_factors (fst (calculate_trust s ao ro sm c))) ''situational'' 0.5 * 0.25 -
        c * 0.5))"
  by (simp add: calculate_trust_def Let_def weights_def)

lemma calculate_trust_neutral:
  "ctm_trust_score (fst (calculate_trust s None None None c)) = max 0 (min 1 (0.425 - c * 0.5))"
  by (simp add: calculate_trust_def Let_def weights_def dict_get_def)

text \<open>
  Claim C7. \<open>calculate_trust\<close> records the contradiction penalty, negated, in the
  returned factors and subtracts it from the weighted sum of the three factors (0.5 for a
  missing one) before clamping. With the three factor inputs absent, the trust score is
  0.025 for a contradiction score of 0.8 and 0.425 for 0.0, so strictly less.
\<close>

theorem contradiction_penalty_reported_and_applied:
  "dict_get (ctm_factors (fst (calculate_trust s ao ro sm c))) ''contradiction_penalty'' d =
     - (c * 0.5) \<and>
   ctm_trust_score (fst (calculate_trust s ao ro sm c)) =
     max 0 (min 1
       (dict_get (ctm_factors (fst (calculate_trust s ao ro sm c))) ''analyst'' 0.5 * 0.35 +
        dict_get (ctm_factors (fst (calculate_trust s ao ro sm c))) ''relational'' 0.5 * 0.25 +
        dict_get (ctm_factors (fst (calculate_trust s ao ro sm c))) ''situational'' 0.5 * 0.25 -
        c * 0.5)) \<and>
   ctm_trust_score (fst (calculate_trust s1 None None None 0.8)) = 0.025 \<and>
   ctm_trust_score (fst (calculate_trust s2 None None None 0.0)) = 0.425 \<and>
   ctm_trust_score (fst (calculate_trust s1 None None None 0.8)) <
     ctm_trust_score (fst (calculate_trust s2 None None None 0.0))"
proof -
  have a: "ctm_trust_score (fst (calculate_trust s1 None None None 0.8)) = 0.025"
    by (simp add: calculate_trust_neutral)
  have b: "ctm_trust_score (fst (calculate_trust s2 None None None 0.0)) = 0.425"
    by (simp add: calculate_trust_neutral)
  have c: "ctm_trust_score (fst (calculate_trust s1 None None None 0.8)) <
     ctm_trust_score (fst (calculate_trust s2 None None None 0.0))"
    unfolding a b by simp
  from a b c calculate_trust_factors_penalty[of s ao ro sm c d]
    calculate_trust_score_formula[of s ao ro sm c]
  show ?thesis by blast
qed

theorem invalid_analysis_forces_regulation_witness:
  "analyst_process failing_relational ''ok'' = Inr stub_invalid_analysis \<and>
   a_result stub_invalid_analysis =
     Some \<lparr>a_structure = Some \<lparr>validity = Some ''invalid'', soundness = None\<rparr>,
           a_fallacies = Some [\<lparr>fallacy_type = Some ''strawman''\<rparr>],
           a_strength = None\<rparr> \<and>
   0 < get_score (o_cam (snd (process failing_relational orchestrator_init ''ok''))) \<and>
   0 < is_contradiction
         (get_internal_state (snd (process failing_relational orchestrator_init ''ok''))) \<and>
   (get_mode (o_sre (snd (process failing_relational orchestrator_init ''ok''))) = Clarify \<or>
    get_mode (o_sre (snd (process failing_relational orchestrator_init ''ok''))) = Slow_Down) \<and>
   (is_regulation_mode
      (get_internal_state (snd (process failing_relational orchestrator_init ''ok''))) = Clarify \<or>
    is_regulation_mode
      (get_internal_state (snd (process failing_relational orchestrator_init ''ok''))) = Slow_Down)"
proof -
  have h1: "analyst_process failing_relational ''ok'' = Inr stub_invalid_analysis"
    by (simp add: failing_relational_def)
  have h2: "a_result stub_invalid_analysis =
     Some \<lparr>a_structure = Some \<lparr>validity = Some ''invalid'', soundness = None\<rparr>,
           a_fallacies = Some [\<lparr>fallacy_type = Some ''strawman''\<rparr>],
           a_strength = None\<rparr>"
    by (simp add: stub_invalid_analysis_def)
  from invalid_analysis_forces_regulation[OF h1 h2, of "\<lparr>validity = Some ''invalid'', soundness = None\<rparr>"
      "\<lparr>fallacy_type = Some ''strawman''\<rparr>" orchestrator_init] h1 h2
  show ?thesis by simp
qed

text \<open>
  Claim C1, amended. If a stage of a run fails, \<open>process\<close> returns a structured error
  result carrying the exception's message and type. Afterwards \<open>get_internal_state\<close>
  returns the state from before the call when it was the analysis producer that failed;
  when a later stage failed, it returns the state the run's SIM, CAM, CTM and SRE calls
  wrote, whether or not that equals the state from before the call.
\<close>

theorem failed_run_keeps_module_writes:
  assumes "first_failure ps s text = Some e"
  shows "fst (process ps s text) = Error (exn_message e) (exn_type e) \<and>
         get_internal_state (snd (process ps s text)) =
           (case analyst_process ps text of
              Inl e' \<Rightarrow> get_internal_state s
            | Inr ao \<Rightarrow>
                (let sim = sim_analyze (o_sim s) text (Some ao);
                     c = cam_contradiction_score (fst (cam_analyze (o_cam s) text (Some ao) None));
                     t = ctm_trust_score
                           (fst (calculate_trust (o_ctm s) (Some ao) None (Some sim) c))
                 in \<lparr>is_sim = sim, is_contradiction = c,
                     is_regulation_mode = determine_mode sim c t, is_trust = t\<rparr>))"
proof -
  have "fst (process ps s text) = Error (exn_message e) (exn_type e)"
    using process_result_of_failure[OF assms] by (simp add: error_result_def)
  moreover have "get_internal_state (snd (process ps s text)) =
           (case analyst_process ps text of
              Inl e' \<Rightarrow> get_internal_state s
            | Inr ao \<Rightarrow>
                (let sim = sim_analyze (o_sim s) text (Some ao);
                     c = cam_contradiction_score (fst (cam_analyze (o_cam s) text (Some ao) None));
                     t = ctm_trust_score
                           (fst (calculate_trust (o_ctm s) (Some ao) None (Some sim) c))
                 in \<lparr>is_sim = sim, is_contradiction = c,
                     is_regulation_mode = determine_mode sim c t, is_trust = t\<rparr>))"
    by (simp add: process_state run_modules_state Let_def get_internal_state_def
        res_mode_regulate split: sum.splits)
  ultimately show ?thesis by simp
qed

section \<open>A failed run\<close>

lemma stub_sim:
  "sim_analyze sim_init ''ok'' (Some stub_invalid_analysis) =
     [(''tension'', 0.15), (''uncertainty'', 0), (''emotional_intensity'', 0)]"
  by code_simp

lemma stub_cam:
  "cam_contradiction_score (fst (cam_analyze cam_init ''ok'' (Some stub_invalid_analysis) None)) = 0.7"
  by code_simp

lemma stub_trust:
  "ctm_trust_score (fst (calculate_trust ctm_init (Some stub_invalid_analysis) None
      (Some [(''tension'', 3 / 20), (''uncertainty'', 0), (''emotional_intensity'', 0)]) (7 / 10))) =
   11 / 160"
  by code_simp

lemma stub_mode:
  "determine_mode [(''tension'', 3 / 20), (''uncertainty'', 0), (''emotional_intensity'', 0)]
     (7 / 10) (11 / 160) = Slow_Down"
  by (simp add: determine_mode_cases)

lemma stub_state:
  "get_internal_state (snd (process failing_relational orchestrator_init ''ok'')) =
     \<lparr>is_sim = [(''tension'', 0.15), (''uncertainty'', 0), (''emotional_intensity'', 0)],
      is_contradiction = 0.7, is_regulation_mode = Slow_Down, is_trust = 0.06875\<rparr>"
proof -
  have a: "analyst_process failing_relational ''ok'' = Inr stub_invalid_analysis"
    by (simp add: failing_relational_def)
  have i: "o_sim orchestrator_init = sim_init" "o_cam orchestrator_init = cam_init"
    "o_ctm orchestrator_init = ctm_init"
    by (simp_all add: orchestrator_init_def)
  show ?thesis
    by (simp add: process_state a run_modules_state Let_def get_internal_state_def i
        stub_sim stub_cam stub_trust res_mode_regulate stub_mode)
qed

lemma stub_first_failure:
  "first_failure failing_relational orchestrator_init ''ok'' =
     Some (Exn ''RuntimeError'' ''relationship producer failed'')"
  by (simp add: first_failure_def failing_relational_def)

lemma stub_state_fields:
  "is_sim (get_internal_state (snd (process failing_relational orchestrator_init ''ok''))) =
     [(''tension'', 0.15), (''uncertainty'', 0), (''emotional_intensity'', 0)] \<and>
   is_contradiction (get_internal_state (snd (process failing_relational orchestrator_init ''ok''))) =
     0.7 \<and>
   is_regulation_mode
     (get_internal_state (snd (process failing_relational orchestrator_init ''ok''))) = Slow_Down \<and>
   0.06 < is_trust (get_internal_state (snd (process failing_relational orchestrator_init ''ok''))) \<and>
   is_trust (get_internal_state (snd (process failing_relational orchestrator_init ''ok''))) < 0.07"
  by (simp add: stub_state)

text \<open>
  Claim C1, amended, at the stub whose relationship producer raises: the error result,
  and the internal state the run's modules wrote.
\<close>

theorem failed_run_keeps_module_writes_witness:
  "first_failure failing_relational orchestrator_init ''ok'' =
     Some (Exn ''RuntimeError'' ''relationship producer failed'') \<and>
   fst (process failing_relational orchestrator_init ''ok'') =
     Error ''relationship producer failed'' ''RuntimeError'' \<and>
   get_internal_state (snd (process failing_relational orchestrator_init ''ok'')) =
     (let sim = sim_analyze (o_sim orchestrator_init) ''ok'' (Some stub_invalid_analysis);
          c = cam_contradiction_score
                (fst (cam_analyze (o_cam orchestrator_init) ''ok'' (Some stub_invalid_analysis) None));
          t = ctm_trust_score
                (fst (calculate_trust (o_ctm orchestrator_init) (Some stub_invalid_analysis) None
                       (Some sim) c))
      in \<lparr>is_sim = sim, is_contradiction = c,
          is_regulation_mode = determine_mode sim c t, is_trust = t\<rparr>) \<and>
   is_sim (get_internal_state (snd (process failing_relational orchestrator_init ''ok''))) =
     [(''tension'', 0.15), (''uncertainty'', 0), (''emotional_intensity'', 0)] \<and>
   is_contradiction (get_internal_state (snd (process failing_relational orchestrator_init ''ok''))) =
     0.7 \<and>
   is_regulation_mode
     (get_internal_state (snd (process failing_relational orchestrator_init ''ok''))) = Slow_Down"
proof -
  have a: "analyst_process failing_relational ''ok'' = Inr stub_invalid_analysis"
    by (simp add: failing_relational_def)
  from failed_run_keeps_module_writes[OF stub_first_failure] a
  have "fst (process failing_relational orchestrator_init ''ok'') =
     Error ''relationship producer failed'' ''RuntimeError'' \<and>
   get_internal_state (snd (process failing_relational orchestrator_init ''ok'')) =
     (let sim = sim_analyze (o_sim orchestrator_init) ''ok'' (Some stub_invalid_analysis);
          c = cam_contradiction_score
                (fst (cam_analyze (o_cam orchestrator_init) ''ok'' (Some stub_invalid_analysis) None));
          t = ctm_trust_score
                (fst (calculate_trust (o_ctm orchestrator_init) (Some stub_invalid_analysis) None
                       (Some sim) c))
      in \<lparr>is_sim = sim, is_contradiction = c,
          is_regulation_mode = determine_mode sim c t, is_trust = t\<rparr>)"
    by simp
  with stub_first_failure stub_state_fields show ?thesis by blast
qed

text \<open>
  Claim C1 as stated fails: the relationship producer raises after SIM, CAM, CTM and
  SRE have run; \<open>process\<close> returns the error result, and \<open>get_internal_state\<close> then answers
  with the failed run's metrics, contradiction score, mode and trust instead of the state
  from before the call.
\<close>

theorem failed_run_exposes_partial_state:
  "fst (process failing_relational orchestrator_init ''ok'') =
     Error ''relationship producer failed'' ''RuntimeError'' \<and>
   get_internal_state orchestrator_init =
     \<lparr>is_sim = [(''tension'', 0), (''uncertainty'', 0), (''emotional_intensity'', 0)],
      is_contradiction = 0, is_regulation_mode = Normal, is_trust = 0.5\<rparr> \<and>
   is_sim (get_internal_state (snd (process failing_relational orchestrator_init ''ok''))) =
     [(''tension'', 0.15), (''uncertainty'', 0), (''emotional_intensity'', 0)] \<and>
   is_contradiction (get_internal_state (snd (process failing_relational orchestrator_init ''ok''))) =
     0.7 \<and>
   is_regulation_mode
     (get_internal_state (snd (process failing_relational orchestrator_init ''ok''))) = Slow_Down \<and>
   is_trust (get_internal_state (snd (process failing_relational orchestrator_init ''ok''))) < 0.07 \<and>
   get_internal_state (snd (process failing_relational orchestrator_init ''ok'')) \<noteq>
     get_internal_state orchestrator_init"
proof -
  have r: "fst (process failing_relational orchestrator_init ''ok'') =
     Error ''relationship producer failed'' ''RuntimeError''"
    using process_result_of_failure[OF stub_first_failure] by (simp add: error_result_def)
  have b: "get_internal_state orchestrator_init =
     \<lparr>is_sim = [(''tension'', 0), (''uncertainty'', 0), (''emotional_intensity'', 0)],
      is_contradiction = 0, is_regulation_mode = Normal, is_trust = 0.5\<rparr>"
    by (simp add: get_internal_state_def orchestrator_init_def init_internal_state_def)
  have d: "get_internal_state (snd (process failing_relational orchestrator_init ''ok'')) \<noteq>
     get_internal_state orchestrator_init"
    unfolding stub_state b by simp
  from r b stub_state_fields d show ?thesis by blast
qed

section \<open>The relational pass of CAM\<close>

lemma previous_type_snoc:
  "previous_type (earlier @ [rel]) pair =
     (if pair_of rel = pair then Some (rel_type rel) else previous_type earlier pair)"
  by (simp add: previous_type_def Let_def)

lemma upt_shift: "[n..<n + Suc k] = n # [Suc n..<Suc n + k]"
  by (simp add: upt_rec)

lemma relationship_loop_spec:
  assumes "\<And>p. map_of cp p = previous_type earlier p"
  shows "relationship_loop rest cp acc =
           acc @ map (\<lambda>i. relational_record (pair_of ((earlier @ rest) ! i)))
                   (filter (type_changed (earlier @ rest))
                      [length earlier..<length earlier + length rest])"
  using assms
proof (induction rest arbitrary: earlier cp acc)
  case Nil
  then show ?case by simp
next
  case (Cons rel rest)
  let ?pair = "pair_of rel"
  let ?cp = "dict_set cp ?pair (rel_type rel)"
  have inv: "\<And>p. map_of ?cp p = previous_type (earlier @ [rel]) p"
    by (simp add: map_of_dict_set previous_type_snoc Cons.prems)
  have changed: "type_changed (earlier @ rel # rest) (length earlier) =
      (dict_has cp ?pair \<and> dict_get cp ?pair None \<noteq> rel_type rel)"
    by (auto simp: type_changed_def dict_has_def dict_get_def Cons.prems[symmetric]
        split: option.splits)
  have step: "relationship_loop (rel # rest) cp acc =
      relationship_loop rest ?cp
        (acc @ (if type_changed (earlier @ rel # rest) (length earlier)
                then [relational_record ?pair] else []))"
    unfolding changed
    by (simp add: Let_def relational_record_def pair_of_def)
  have app: "(earlier @ [rel]) @ rest = earlier @ rel # rest" by simp
  let ?f = "\<lambda>i. relational_record (pair_of ((earlier @ rel # rest) ! i))"
  let ?later = "[length (earlier @ [rel])..<length (earlier @ [rel]) + length rest]"
  have idx: "[length earlier..<length earlier + length (rel # rest)] = length earlier # ?later"
    using upt_shift[of "length earlier" "length rest"] by simp
  have "relationship_loop (rel # rest) cp acc =
      (acc @ (if type_changed (earlier @ rel # rest) (length earlier)
              then [relational_record ?pair] else [])) @
      map ?f (filter (type_changed (earlier @ rel # rest)) ?later)"
    using Cons.IH[OF inv] by (simp only: step app)
  also have "\<dots> = acc @ map ?f (filter (type_changed (earlier @ rel # rest))
                               (length earlier # ?later))"
    by simp
  finally show ?case by (simp only: idx)
qed

lemma detect_relational_spec:
  "detect_relational_contradictions ro =
     map (\<lambda>i. relational_record (pair_of (relationships_of ro ! i)))
       (filter (type_changed (relationships_of ro)) [0..<length (relationships_of ro)])"
proof -
  have "\<And>p. map_of ([] :: (concept_pair \<times> string option) list) p = previous_type [] p"
    by (simp add: previous_type_def)
  from relationship_loop_spec[OF this, of "relationships_of ro" "[]"]
  show ?thesis
    by (simp add: detect_relational_contradictions_def relationships_of_def Let_def)
qed

text \<open>
  Claim C3, amended. The relational pass emits one relational record of severity 0.5
  for each relationship, in order, whose ordered pair (source, target) appeared before and
  whose type differs from the type of the most recent earlier relationship on that pair.
\<close>

theorem relational_pass_compares_with_latest_type:
  "detect_relational_contradictions ro =
     map (\<lambda>i. relational_record (pair_of (relationships_of ro ! i)))
       (filter (type_changed (relationships_of ro)) [0..<length (relationships_of ro)]) \<and>
   severity (relational_record pair) = 0.5 \<and>
   con_type (relational_record pair) = ''relational''"
proof -
  have "severity (relational_record pair) = 0.5"
    and "con_type (relational_record pair) = ''relational''"
    by (simp_all add: relational_record_def)
  with detect_relational_spec[of ro] show ?thesis by blast
qed

text \<open>
  Claim C3 as stated fails: for three relationships on one pair with types X, Y, X the
  pass emits two records, one for Y and one for the second X, not exactly one.
\<close>

theorem relational_pass_xyx_emits_two:
  "map severity (detect_relational_contradictions (relational_output_of xyx_relationships)) =
     [0.5, 0.5] \<and>
   length (detect_relational_contradictions (relational_output_of xyx_relationships)) \<noteq> 1"
  by (simp add: detect_relational_contradictions_def relational_output_of_def
      xyx_relationships_def get_or_def Let_def dict_has_def dict_get_def)

section \<open>The transitive pass of RIL\<close>

lemma next_edge_loop_eq:
  "next_edge_loop source source_edges intermediate nes inferred =
     inferred @
     [\<lparr>inf_source = source, inf_target = e_target bc, inf_type = ''transitive'',
       inf_path = [source, intermediate, e_target bc], inf_confidence = 0.6\<rparr>.
        bc \<leftarrow> nes, e_target bc \<noteq> source,
        \<not> list_ex (\<lambda>direct. e_target direct = e_target bc) source_edges]"
  by (induction nes arbitrary: inferred) (simp_all add: Let_def)

lemma dict_get_absent: "\<not> dict_has d k \<Longrightarrow> dict_get d k [] = []"
  by (simp add: dict_has_def dict_get_def)

lemma edge_loop_eq:
  "edge_loop edges source source_edges es inferred =
     inferred @
     [\<lparr>inf_source = source, inf_target = e_target bc, inf_type = ''transitive'',
       inf_path = [source, e_target ab, e_target bc], inf_confidence = 0.6\<rparr>.
        ab \<leftarrow> es, bc \<leftarrow> dict_get edges (e_target ab) [], e_target bc \<noteq> source,
        \<not> list_ex (\<lambda>direct. e_target direct = e_target bc) source_edges]"
proof (induction es arbitrary: inferred)
  case Nil
  then show ?case by simp
next
  case (Cons e es)
  show ?case
  proof (cases "dict_has edges (e_target e)")
    case True
    then show ?thesis by (simp add: Let_def Cons.IH next_edge_loop_eq)
  next
    case False
    then show ?thesis by (simp add: Let_def Cons.IH dict_get_absent)
  qed
qed

lemma source_loop_eq:
  "source_loop edges items inferred =
     inferred @
     [\<lparr>inf_source = a, inf_target = e_target bc, inf_type = ''transitive'',
       inf_path = [a, e_target ab, e_target bc], inf_confidence = 0.6\<rparr>.
        (a, a_edges) \<leftarrow> items, ab \<leftarrow> a_edges,
        bc \<leftarrow> dict_get edges (e_target ab) [], e_target bc \<noteq> a,
        \<not> list_ex (\<lambda>direct. e_target direct = e_target bc) a_edges]"
proof (induction items arbitrary: inferred)
  case Nil
  then show ?case by simp
next
  case (Cons item items)
  obtain a a_edges where item: "item = (a, a_edges)" by (cases item)
  show ?case by (simp add: item Cons.IH edge_loop_eq)
qed

lemma infer_transitive_eq:
  "infer_transitive g = take 10 (transitive_candidates (g_edges g))"
  by (simp add: infer_transitive_def transitive_candidates_def source_loop_eq)

lemma chain_infer:
  "map_sum id inferred_relationships (infer chain_concepts [related ''A'' ''B'', related ''B'' ''C'']) =
     Inr [\<lparr>inf_source = ''A'', inf_target = ''C'', inf_type = ''transitive'',
           inf_path = [''A'', ''B'', ''C''], inf_confidence = 0.6\<rparr>]"
  by code_simp

lemma chain_direct_infer:
  "map_sum id inferred_relationships
     (infer chain_concepts [related ''A'' ''B'', related ''B'' ''C'', related ''A'' ''C'']) = Inr []"
  by code_simp

section \<open>Missing fields in RIL\<close>













































section \<open>Duplicate inferred edges\<close>

lemma diamond_infer:
  "map_sum id inferred_relationships
     (infer diamond_concepts [related ''A'' ''B'', related ''A'' ''B2'', related ''B'' ''C'', related ''B2'' ''C'']) =
   Inr [transitive_edge ''A'' ''B'' ''C'', transitive_edge ''A'' ''B2'' ''C'']"
  by code_simp

lemma fan_infer:
  "map_sum id inferred_relationships (infer [] fan_relationships) =
   Inr (map (\<lambda>b. transitive_edge ''A'' b ''C'') (take 10 intermediates))"
  by code_simp

lemma small_fan_infer:
  "map_sum id inferred_relationships
     (infer [] [related ''A'' ''b11'', related ''b11'' ''C'', related ''b11'' ''D'']) =
   Inr [transitive_edge ''A'' ''b11'' ''C'', transitive_edge ''A'' ''b11'' ''D'']"
  by code_simp

lemma source_loop_append:
  "source_loop edges items inferred = inferred @ source_loop edges items []"
  by (simp add: source_loop_eq)

lemma infer_inferred_relationships:
  "map_sum id inferred_relationships (infer cs rs) =
     (case infer cs rs of
        Inl e \<Rightarrow> Inl e
      | Inr r \<Rightarrow> (case build_graph cs rs of Inl e \<Rightarrow> Inl e | Inr g \<Rightarrow> Inr (infer_transitive g)))"
  by (auto simp: infer_def Let_def split: sum.splits)

text \<open>
  Claim C8. The transitive pass returns the first ten, in the order found, of the edges
  from \<open>a\<close> to \<open>c\<close> of type \<open>transitive\<close>, path \<open>[a, b, c]\<close> and confidence 0.6, one for
  every source \<open>a\<close> with an edge to \<open>b\<close> and every edge from \<open>b\<close> to \<open>c\<close> with \<open>c \<noteq> a\<close>
  such that no edge of \<open>a\<close>'s own adjacency list points at \<open>c\<close>; \<open>infer\<close> returns this list
  for the graph it builds. For the concepts A, B, C with A to B and B to C it infers A to C
  with path A, B, C, and nothing when A to C is given as well.
\<close>

theorem transitive_pass_first_ten_candidates:
  "infer_transitive g = take 10 (transitive_candidates (g_edges g)) \<and>
   length (infer_transitive g) \<le> 10 \<and>
   map_sum id inferred_relationships (infer cs rs) =
     (case infer cs rs of
        Inl e \<Rightarrow> Inl e
      | Inr r \<Rightarrow> (case build_graph cs rs of Inl e \<Rightarrow> Inl e | Inr g' \<Rightarrow> Inr (infer_transitive g'))) \<and>
   map_sum id inferred_relationships (infer chain_concepts [related ''A'' ''B'', related ''B'' ''C'']) =
     Inr [\<lparr>inf_source = ''A'', inf_target = ''C'', inf_type = ''transitive'',
           inf_path = [''A'', ''B'', ''C''], inf_confidence = 0.6\<rparr>] \<and>
   map_sum id inferred_relationships
     (infer chain_concepts [related ''A'' ''B'', related ''B'' ''C'', related ''A'' ''C'']) = Inr []"
proof -
  have "length (infer_transitive g) \<le> 10" by (simp add: infer_transitive_def)
  with infer_transitive_eq[of g] infer_inferred_relationships[of cs rs] chain_infer
    chain_direct_infer
  show ?thesis by blast
qed

text \<open>
  Claim C10. With A to B to C and A to B2 to C, \<open>infer\<close> emits two inferred edges from
  A to C. What a loop appends does not depend on the edges inferred so far. With eleven
  intermediates between A and C, the last of which also points at D, the ten edges returned
  are all from A to C, and the edge from A to D, which is inferred when that intermediate
  is the only one, is cut.
\<close>

theorem transitive_pass_emits_duplicates:
  "map_sum id inferred_relationships
     (infer diamond_concepts [related ''A'' ''B'', related ''A'' ''B2'', related ''B'' ''C'', related ''B2'' ''C'']) =
     Inr [transitive_edge ''A'' ''B'' ''C'', transitive_edge ''A'' ''B2'' ''C''] \<and>
   source_loop edges items inferred = inferred @ source_loop edges items [] \<and>
   map_sum id inferred_relationships (infer [] fan_relationships) =
     Inr (map (\<lambda>b. transitive_edge ''A'' b ''C'') (take 10 intermediates)) \<and>
   map_sum id inferred_relationships
     (infer [] [related ''A'' ''b11'', related ''b11'' ''C'', related ''b11'' ''D'']) =
     Inr [transitive_edge ''A'' ''b11'' ''C'', transitive_edge ''A'' ''b11'' ''D'']"
  using diamond_infer source_loop_append[of edges items inferred] fan_infer small_fan_infer
  by blast

end
